theory Spec2Isabelle
  imports Main
begin

section \<open>Python string primitives used by \<open>osm_rawdata/postgres.py\<close>\<close>

text \<open>
  Python strings are modelled as \<open>string\<close>; a character stands for the code point of
  the same number (0 to 255). Indices are \<open>int\<close>, since \<open>str.find\<close> and
  \<open>str.rfind\<close> answer \<open>-1\<close> when nothing is found and a slice bound may be negative.
\<close>

fun starts_with :: "string \<Rightarrow> string \<Rightarrow> bool" where
  "starts_with [] s = True"
| "starts_with (p # ps) [] = False"
| "starts_with (p # ps) (c # cs) = (p = c \<and> starts_with ps cs)"

text \<open>\<open>s.find(sub)\<close>: the lowest index where \<open>sub\<close> starts, or \<open>-1\<close>.\<close>

fun py_find :: "string \<Rightarrow> string \<Rightarrow> int" where
  "py_find sub [] = (if sub = [] then 0 else - 1)"
| "py_find sub (c # cs) =
     (if starts_with sub (c # cs) then 0
      else (let r = py_find sub cs in if r < 0 then - 1 else r + 1))"

text \<open>\<open>s.rfind(sub)\<close>: the highest index where \<open>sub\<close> starts, or \<open>-1\<close>.\<close>

fun py_rfind :: "string \<Rightarrow> string \<Rightarrow> int" where
  "py_rfind sub [] = (if sub = [] then 0 else - 1)"
| "py_rfind sub (c # cs) =
     (let r = py_rfind sub cs in
      if 0 \<le> r then r + 1
      else if starts_with sub (c # cs) then 0 else - 1)"

text \<open>
  Slice bounds as Python normalises them: a negative bound counts from the end, and
  every bound is clipped to the string.
\<close>

definition slice_bound :: "nat \<Rightarrow> int \<Rightarrow> nat" where
  "slice_bound n i = (if i < 0 then nat (max 0 (i + int n)) else min (nat i) n)"

definition py_slice :: "string \<Rightarrow> int \<Rightarrow> int \<Rightarrow> string" where
  \<comment> \<open>\<open>s[a:b]\<close>\<close>
  "py_slice s a b =
     (let lo = slice_bound (length s) a; hi = slice_bound (length s) b
      in take (hi - lo) (drop lo s))"

definition py_slice_from :: "string \<Rightarrow> int \<Rightarrow> string" where
  \<comment> \<open>\<open>s[a:]\<close>\<close>
  "py_slice_from s a = drop (slice_bound (length s) a) s"

definition py_slice_to :: "string \<Rightarrow> int \<Rightarrow> string" where
  \<comment> \<open>\<open>s[:b]\<close>\<close>
  "py_slice_to s b = take (slice_bound (length s) b) s"

section \<open>\<open>uriParser\<close>\<close>

text \<open>
  The dictionary that \<open>uriParser\<close> returns has five fixed keys; a field is \<open>None\<close>
  as long as no branch has assigned it.
\<close>

record uri =
  dbname :: "string option"
  dbhost :: "string option"
  dbuser :: "string option"
  dbpass :: "string option"
  dbport :: "string option"

text \<open>Python's \<open>not x\<close> for a value that is \<open>None\<close> or a string.\<close>

definition py_not :: "string option \<Rightarrow> bool" where
  "py_not x = (x = None \<or> x = Some [])"

definition uriParser :: "string \<Rightarrow> uri" where
  "uriParser source =
     (let colon = py_find '':'' source;
          rcolon = py_rfind '':'' source;
          atsign = py_find ''@'' source;
          slash = py_find ''/'' source;
          name0 = (if colon < 0 \<and> atsign < 0 \<and> slash < 0 then Some source else None);
          name1 = (if slash > 0 then Some (py_slice_from source (slash + 1)) else name0);
          user0 = (if colon > 0 then Some (py_slice_to source colon) else None);
          user1 = (if colon < 0 \<and> atsign > 0 then Some (py_slice_to source atsign) else user0);
          pass0 = (if colon > 0 \<and> atsign > 0 then Some (py_slice source (colon + 1) atsign)
                   else None);
          host0 = (if atsign > 0 then
                     (if rcolon > 0 \<and> rcolon > atsign
                        then Some (py_slice source (atsign + 1) rcolon)
                      else if slash > 0 then Some (py_slice source (atsign + 1) slash)
                      else Some (py_slice_from source (atsign + 1)))
                   else None);
          port0 = (if rcolon > 0 \<and> rcolon > atsign then
                     (if slash > 0 then Some (py_slice source (rcolon + 1) slash)
                      else Some (py_slice_from source (rcolon + 1)))
                   else None);
          pass1 = (if colon > 0 \<and> atsign < 0 \<and> slash > 0
                     then Some (py_slice source (colon + 1) slash) else pass0);
          host1 = (if py_not host0 then Some ''localhost'' else host0)
      in \<lparr>dbname = name1, dbhost = host1, dbuser = user1, dbpass = pass1, dbport = port0\<rparr>)"

section \<open>Python values, errors and text rendering\<close>

text \<open>
  The values that occur in a query configuration: a string, or a list of values. A
  dictionary is an association list in insertion order, as Python iterates it.
\<close>

datatype pyval = PStr string | PList "pyval list"

type_synonym pydict = "(string \<times> pyval) list"

datatype pyerror =
    KeyError string
  | IndexError
  | TypeError
  | ValueError
  | AttributeError
  | NameError string
  | JSONDecodeError
  | HTTPError
  | ConnectionError
  | DatabaseError

definition ebind :: "pyerror + 'a \<Rightarrow> ('a \<Rightarrow> pyerror + 'b) \<Rightarrow> pyerror + 'b" where
  "ebind m f = (case m of Inl e \<Rightarrow> Inl e | Inr x \<Rightarrow> f x)"

text \<open>\<open>d[k]\<close> raises \<open>KeyError\<close> for a key that is absent.\<close>

definition dict_get :: "(string \<times> 'a) list \<Rightarrow> string \<Rightarrow> pyerror + 'a" where
  "dict_get d k = (case map_of d k of None \<Rightarrow> Inl (KeyError k) | Some v \<Rightarrow> Inr v)"

text \<open>\<open>d[k] = v\<close>: an existing key keeps its position, a new key goes last.\<close>

fun dict_set :: "(string \<times> 'a) list \<Rightarrow> string \<Rightarrow> 'a \<Rightarrow> (string \<times> 'a) list" where
  "dict_set [] k v = [(k, v)]"
| "dict_set ((k', v') # d) k v = (if k' = k then (k, v) # d else (k', v') # dict_set d k v)"

definition sq :: char where
  "sq = CHR 0x27"

definition dq :: char where
  "dq = CHR 0x22"

definition backslash :: char where
  "backslash = CHR 0x5C"

definition hex_digit :: "nat \<Rightarrow> char" where
  "hex_digit n = ''0123456789abcdef'' ! (n mod 16)"

text \<open>\<open>str.isprintable\<close> on the code points 0 to 255.\<close>

definition py_printable :: "char \<Rightarrow> bool" where
  "py_printable c =
     (let n = (of_char c :: nat) in (32 \<le> n \<and> n < 127) \<or> (161 \<le> n \<and> n \<noteq> 173))"

text \<open>\<open>str.isspace\<close> on the code points 0 to 255.\<close>

definition py_isspace :: "char \<Rightarrow> bool" where
  "py_isspace c =
     (let n = (of_char c :: nat)
      in (9 \<le> n \<and> n \<le> 13) \<or> (28 \<le> n \<and> n \<le> 32) \<or> n = 133 \<or> n = 160)"

definition py_rstrip :: "string \<Rightarrow> string" where
  "py_rstrip s = rev (dropWhile py_isspace (rev s))"

text \<open>
  \<open>repr\<close> of a string: double quotes only when the text holds a single quote and no
  double quote; the quote in use and the backslash are escaped, as are tab, newline,
  carriage return and every character that is not printable.
\<close>

definition repr_char :: "char \<Rightarrow> char \<Rightarrow> string" where
  "repr_char q c =
     (if c = q \<or> c = backslash then [backslash, c]
      else if c = CHR 0x09 then [backslash, CHR ''t'']
      else if c = CHR 0x0A then [backslash, CHR ''n'']
      else if c = CHR 0x0D then [backslash, CHR ''r'']
      else if \<not> py_printable c
        then [backslash, CHR ''x'', hex_digit ((of_char c :: nat) div 16),
              hex_digit ((of_char c :: nat) mod 16)]
      else [c])"

definition repr_str :: "string \<Rightarrow> string" where
  "repr_str s =
     (let q = (if sq \<in> set s \<and> dq \<notin> set s then dq else sq)
      in q # concat (map (repr_char q) s) @ [q])"

text \<open>\<open>sep.join(parts)\<close>\<close>

fun py_join :: "string \<Rightarrow> string list \<Rightarrow> string" where
  "py_join sep [] = []"
| "py_join sep [p] = p"
| "py_join sep (p # q # ps) = p @ sep @ py_join sep (q # ps)"

fun py_repr :: "pyval \<Rightarrow> string" where
  "py_repr (PStr s) = repr_str s"
| "py_repr (PList xs) = ''['' @ py_join '', '' (map py_repr xs) @ '']''"

text \<open>\<open>str(v)\<close>, which is also what an f-string field renders.\<close>

definition py_str :: "pyval \<Rightarrow> string" where
  "py_str v = (case v of PStr s \<Rightarrow> s | PList xs \<Rightarrow> py_repr v)"

definition py_len :: "pyval \<Rightarrow> nat" where
  "py_len v = (case v of PStr s \<Rightarrow> length s | PList xs \<Rightarrow> length xs)"

text \<open>The elements that iterating a value yields: the characters of a string, one by one.\<close>

definition py_elems :: "pyval \<Rightarrow> pyval list" where
  "py_elems v = (case v of PStr s \<Rightarrow> map (\<lambda>c. PStr [c]) s | PList xs \<Rightarrow> xs)"

text \<open>\<open>str(tuple(v))\<close>: a tuple of one element is written with a trailing comma.\<close>

definition py_tuple_str :: "pyval \<Rightarrow> string" where
  "py_tuple_str v =
     (let xs = py_elems v
      in ''('' @ py_join '', '' (map py_repr xs) @ (if length xs = 1 then '','' else []) @ '')'')"

section \<open>The query configuration\<close>

text \<open>
  \<open>QueryConfig.config\<close> is a dictionary with the entries \<open>select\<close>, \<open>tables\<close> and
  \<open>where\<close>; \<open>select\<close> and \<open>where\<close> map a table name to a list of dictionaries.
  \<open>cfg_other\<close> lists the further top-level keys of the dictionary.
\<close>

record query_config =
  cfg_select :: "(string \<times> pydict list) list"
  cfg_tables :: "string list"
  cfg_where :: "(string \<times> pydict list) list"
  cfg_other :: "string list"

definition config_keys :: "query_config \<Rightarrow> string list" where
  "config_keys cfg = [''select'', ''tables'', ''where''] @ cfg_other cfg"

section \<open>\<open>DatabaseAccess.createSQL\<close>\<close>

text \<open>The \<open>SELECT\<close> list of one table; the final slice drops the last comma and space.\<close>

definition select_item :: "string \<times> pyval \<Rightarrow> string" where
  "select_item kv = ''tags->>'' @ [sq] @ fst kv @ [sq] @ '', ''"

definition select_text :: "bool \<Rightarrow> pydict list \<Rightarrow> string" where
  "select_text allgeom entries =
     py_slice_to
       (''SELECT ''
          @ (if allgeom then ''ST_AsText(geom)'' else ''ST_AsText(ST_Centroid(geom))'')
          @ '', osm_id, version, ''
          @ concat (map (\<lambda>entry. concat (map select_item entry)) entries))
       (- 2)"

text \<open>
  The first loop over the where entries: an entry goes to \<open>join_or\<close> or \<open>join_and\<close>
  once for each of its keys other than \<open>op\<close>.
\<close>

fun items_loop ::
  "pydict \<Rightarrow> pyval \<Rightarrow> pydict \<Rightarrow> pydict list \<times> pydict list \<Rightarrow> pydict list \<times> pydict list"
where
  "items_loop entry opv [] acc = acc"
| "items_loop entry opv ((k, v) # rest) (jo, ja) =
     (if k = ''op'' then items_loop entry opv rest (jo, ja)
      else if opv = PStr ''or'' then items_loop entry opv rest (jo @ [entry], ja)
      else if opv = PStr ''and'' then items_loop entry opv rest (jo, ja @ [entry])
      else items_loop entry opv rest (jo, ja))"

fun where_loop ::
  "pydict list \<Rightarrow> pydict list \<times> pydict list \<Rightarrow> pyerror + (pydict list \<times> pydict list)"
where
  "where_loop [] acc = Inr acc"
| "where_loop (entry # rest) acc =
     ebind (dict_get entry ''op'') (\<lambda>opv. where_loop rest (items_loop entry opv entry acc))"

text \<open>
  The text \<open>v1\<close> of one clause in the loop over \<open>join_or\<close>; \<open>v[0]\<close> is read only
  where \<open>len(v)\<close> is 1.
\<close>

definition or_value_text :: "pyval \<Rightarrow> string" where
  "or_value_text v =
     (if py_len v = 1 then
        (if hd (py_elems v) = PStr ''not null'' then ''IS NOT NULL''
         else ''='' @ [sq] @ py_str (hd (py_elems v)) @ [sq])
      else if py_len v > 0 then '' IN '' @ py_tuple_str v
      else ''IS NOT NULL'')"

fun jor_item :: "string \<times> pyval \<Rightarrow> string" where
  "jor_item (k, PList (PList ys # xs)) =
     ''tags->>'' @ [sq] @ k @ [sq] @ ''=ANY(ARRAY'' @ py_str (PList ys) @ '') OR ''"
| "jor_item (k, v) =
     (if k = ''op'' then [] else ''tags->>'' @ [sq] @ k @ [sq] @ '' '' @ or_value_text v @ '' OR '')"

text \<open>The text \<open>v1\<close> of one clause in the loop over \<open>join_and\<close>.\<close>

definition and_value_text :: "pyval \<Rightarrow> string" where
  "and_value_text v =
     (if py_len v = 1 then
        (if hd (py_elems v) = PStr ''not null'' then ''IS NOT NULL''
         else ''='' @ [sq] @ py_str (hd (py_elems v)) @ [sq])
      else if py_len v > 0 then '' IN '' @ py_tuple_str v
      else ''IS NOT NULL AND'')"

definition jand_item :: "string \<times> pyval \<Rightarrow> string" where
  "jand_item kv =
     (if fst kv = ''op'' then []
      else ''tags->>'' @ [sq] @ fst kv @ [sq] @ '' '' @ and_value_text (snd kv) @ '' AND '')"

definition jor_text :: "pydict list \<Rightarrow> string" where
  "jor_text join_or = concat (map (\<lambda>entry. concat (map jor_item entry)) join_or)"

definition jand_text :: "pydict list \<Rightarrow> string" where
  "jand_text join_and = concat (map (\<lambda>entry. concat (map jand_item entry)) join_and)"

text \<open>The statement of one table: the query is stripped on the right and cut at its last space.\<close>

definition trim_query :: "string \<Rightarrow> string" where
  "trim_query q = (let query = py_rstrip q in py_slice_to query (py_rfind '' '' query))"

definition table_sql :: "query_config \<Rightarrow> bool \<Rightarrow> string \<Rightarrow> pyerror + string" where
  "table_sql cfg allgeom table =
     ebind (dict_get (cfg_select cfg) table) (\<lambda>sel.
     ebind (dict_get (cfg_where cfg) table) (\<lambda>wh.
     ebind (where_loop wh ([], [])) (\<lambda>groups.
       Inr (trim_query
              (select_text allgeom sel @ '' FROM '' @ table @ '' WHERE ''
                 @ jor_text (fst groups) @ '' '' @ jand_text (snd groups))))))"

fun createSQL_loop :: "query_config \<Rightarrow> bool \<Rightarrow> string list \<Rightarrow> string list \<Rightarrow> pyerror + string list"
where
  "createSQL_loop cfg allgeom [] sql = Inr sql"
| "createSQL_loop cfg allgeom (table # rest) sql =
     ebind (table_sql cfg allgeom table) (\<lambda>q. createSQL_loop cfg allgeom rest (sql @ [q]))"

definition createSQL :: "query_config \<Rightarrow> bool \<Rightarrow> pyerror + string list" where
  "createSQL cfg allgeom = createSQL_loop cfg allgeom (cfg_tables cfg) []"

section \<open>JSON documents and \<open>json.dumps\<close>\<close>

text \<open>
  An integer is \<open>JInt\<close>; any other number is carried by its rendering, floating point
  arithmetic being outside this model.
  \<open>json.dumps\<close> is taken with its default arguments (\<open>ensure_ascii\<close>, the separators
  \<open>", "\<close> and \<open>": "\<close>).
\<close>

datatype json =
    JNull
  | JBool bool
  | JInt int
  | JNum string
  | JStr string
  | JArr "json list"
  | JObj "(string \<times> json) list"

function show_nat :: "nat \<Rightarrow> string" where
  "show_nat n = (if n < 10 then [hex_digit n] else show_nat (n div 10) @ [hex_digit (n mod 10)])"
  by pat_completeness auto
termination
  by (relation "measure id") auto

declare show_nat.simps [simp del]

definition show_int :: "int \<Rightarrow> string" where
  "show_int i = (if i < 0 then CHR ''-'' # show_nat (nat (- i)) else show_nat (nat i))"

definition json_escape_char :: "char \<Rightarrow> string" where
  "json_escape_char c =
     (if c = dq \<or> c = backslash then [backslash, c]
      else if c = CHR 0x0A then [backslash, CHR ''n'']
      else if c = CHR 0x0D then [backslash, CHR ''r'']
      else if c = CHR 0x09 then [backslash, CHR ''t'']
      else if c = CHR 0x08 then [backslash, CHR ''b'']
      else if c = CHR 0x0C then [backslash, CHR ''f'']
      else if (of_char c :: nat) < 32 \<or> 126 < (of_char c :: nat)
        then [backslash, CHR ''u'', CHR ''0'', CHR ''0'', hex_digit ((of_char c :: nat) div 16),
              hex_digit ((of_char c :: nat) mod 16)]
      else [c])"

definition json_string :: "string \<Rightarrow> string" where
  "json_string s = dq # concat (map json_escape_char s) @ [dq]"

fun json_dumps :: "json \<Rightarrow> string" where
  "json_dumps JNull = ''null''"
| "json_dumps (JBool b) = (if b then ''true'' else ''false'')"
| "json_dumps (JInt i) = show_int i"
| "json_dumps (JNum n) = n"
| "json_dumps (JStr s) = json_string s"
| "json_dumps (JArr xs) = ''['' @ py_join '', '' (map json_dumps xs) @ '']''"
| "json_dumps (JObj kvs) =
     ''{'' @ py_join '', '' (map (\<lambda>kv. json_string (fst kv) @ '': '' @ json_dumps (snd kv)) kvs)
       @ ''}''"

fun json_of_pyval :: "pyval \<Rightarrow> json" where
  "json_of_pyval (PStr s) = JStr s"
| "json_of_pyval (PList xs) = JArr (map json_of_pyval xs)"

section \<open>\<open>DatabaseAccess.createJson\<close>\<close>

record tag_filter =
  join_or :: pydict
  join_and :: pydict

text \<open>
  What the loop over the where entries carries: the two local lists of keys per
  geometry class, and \<open>filters["tags"]\<close>.
\<close>

record json_state =
  or_keys :: "(string \<times> string list) list"
  and_keys :: "(string \<times> string list) list"
  tags :: "(string \<times> tag_filter) list"

definition tables_map :: "(string \<times> string) list" where
  "tables_map = [(''nodes'', ''point''), (''ways_poly'', ''polygon''), (''ways_line'', ''line'')]"

definition init_json_state :: json_state where
  "init_json_state =
     \<lparr>or_keys = [(''point'', []), (''polygon'', []), (''line'', [])],
      and_keys = [(''point'', []), (''polygon'', []), (''line'', [])],
      tags = [(''point'', \<lparr>join_or = [], join_and = []\<rparr>),
              (''polygon'', \<lparr>join_or = [], join_and = []\<rparr>),
              (''line'', \<lparr>join_or = [], join_and = []\<rparr>)]\<rparr>"

text \<open>\<open>"not null" in v\<close>: membership in a list, a substring test on a string.\<close>

definition contains_not_null :: "pyval \<Rightarrow> bool" where
  "contains_not_null v =
     (case v of PStr s \<Rightarrow> 0 \<le> py_find ''not null'' s | PList xs \<Rightarrow> PStr ''not null'' \<in> set xs)"

text \<open>\<open>d[cls].append(key)\<close>\<close>

definition append_key ::
  "(string \<times> string list) list \<Rightarrow> string \<Rightarrow> string \<Rightarrow> pyerror + (string \<times> string list) list"
where
  "append_key d cls key = ebind (dict_get d cls) (\<lambda>ks. Inr (dict_set d cls (ks @ [key])))"

text \<open>\<open>filters["tags"][cls]["join_or"][key] = v\<close>, then the same under \<open>join_and\<close>.\<close>

definition set_both ::
  "(string \<times> tag_filter) list \<Rightarrow> string \<Rightarrow> string \<Rightarrow> pyval \<Rightarrow> pyerror + (string \<times> tag_filter) list"
where
  "set_both t cls key v =
     ebind (dict_get t cls) (\<lambda>f.
       Inr (dict_set t cls
              \<lparr>join_or = dict_set (join_or f) key v, join_and = dict_set (join_and f) key v\<rparr>))"

definition json_item :: "string \<Rightarrow> pydict \<Rightarrow> json_state \<Rightarrow> pyerror + json_state" where
  "json_item table item st =
     (case item of
        [] \<Rightarrow> Inl IndexError
      | (key, v) # _ \<Rightarrow>
          ebind (dict_get item ''op'') (\<lambda>opv.
          ebind (if opv = PStr ''or''
                 then ebind (dict_get tables_map table) (\<lambda>cls.
                      ebind (append_key (or_keys st) cls key) (\<lambda>d. Inr (st\<lparr>or_keys := d\<rparr>)))
                 else Inr st) (\<lambda>st1.
          ebind (if opv = PStr ''and''
                 then ebind (dict_get tables_map table) (\<lambda>cls.
                      ebind (append_key (and_keys st1) cls key) (\<lambda>d. Inr (st1\<lparr>and_keys := d\<rparr>)))
                 else Inr st1) (\<lambda>st2.
          ebind (dict_get tables_map table) (\<lambda>cls.
          ebind (set_both (tags st2) cls key (if contains_not_null v then PList [] else v))
            (\<lambda>t. Inr (st2\<lparr>tags := t\<rparr>)))))))"

fun json_items :: "string \<Rightarrow> pydict list \<Rightarrow> json_state \<Rightarrow> pyerror + json_state" where
  "json_items table [] st = Inr st"
| "json_items table (item # rest) st = ebind (json_item table item st) (json_items table rest)"

text \<open>
  The loop over \<open>config["where"].keys()\<close>; \<open>wh\<close> is the whole dictionary, in which
  each table is looked up again.
\<close>

fun json_tables ::
  "(string \<times> pydict list) list \<Rightarrow> string list \<Rightarrow> json_state \<Rightarrow> pyerror + json_state"
where
  "json_tables wh [] st = Inr st"
| "json_tables wh (table # rest) st =
     ebind (dict_get wh table) (\<lambda>items.
     ebind (json_items table items st) (json_tables wh rest))"

text \<open>\<open>len(select[t]) > 0 or len(where[t]) > 0\<close>, the second operand read only if needed.\<close>

definition has_entries :: "query_config \<Rightarrow> string \<Rightarrow> pyerror + bool" where
  "has_entries cfg t =
     ebind (dict_get (cfg_select cfg) t) (\<lambda>sel.
       if length sel > 0 then Inr True
       else ebind (dict_get (cfg_where cfg) t) (\<lambda>wh. Inr (length wh > 0)))"

definition geometry_types :: "query_config \<Rightarrow> pyerror + string list" where
  "geometry_types cfg =
     ebind (has_entries cfg ''nodes'') (\<lambda>p.
     ebind (has_entries cfg ''ways_line'') (\<lambda>l.
     ebind (has_entries cfg ''ways_poly'') (\<lambda>g.
       Inr ((if p then [''point''] else []) @ (if l then [''line''] else [])
              @ (if g then [''polygon''] else [])))))"

text \<open>
  The loop that collects the selected attributes; \<open>[[k, v]] = value.items()\<close> raises
  \<open>ValueError\<close> unless the dictionary has exactly one entry.
\<close>

fun select_attributes :: "pydict list \<Rightarrow> string list \<Rightarrow> pyerror + string list" where
  "select_attributes [] attributes = Inr attributes"
| "select_attributes (entry # rest) attributes =
     (case entry of
        [(k, v)] \<Rightarrow>
          select_attributes rest (if k \<in> set attributes then attributes else attributes @ [k])
      | _ \<Rightarrow> Inl ValueError)"

fun select_tables :: "(string \<times> pydict list) list \<Rightarrow> string list \<Rightarrow> pyerror + string list" where
  "select_tables [] attributes = Inr attributes"
| "select_tables ((table, entries) # rest) attributes =
     ebind (select_attributes entries attributes) (select_tables rest)"

record feature_doc =
  doc_geometry :: json
  doc_geometryType :: "string list"
  doc_tags :: "(string \<times> tag_filter) list"

definition json_of_dict :: "pydict \<Rightarrow> json" where
  "json_of_dict d = JObj (map (\<lambda>kv. (fst kv, json_of_pyval (snd kv))) d)"

definition json_of_feature :: "feature_doc \<Rightarrow> json" where
  "json_of_feature f =
     JObj [(''geometry'', doc_geometry f),
           (''geometryType'', JArr (map JStr (doc_geometryType f))),
           (''filters'',
            JObj [(''tags'',
                   JObj (map (\<lambda>ct. (fst ct,
                                JObj [(''join_or'', json_of_dict (join_or (snd ct))),
                                      (''join_and'', json_of_dict (join_and (snd ct)))]))
                           (doc_tags f)))])]"

text \<open>
  The dictionary \<open>feature\<close> as it stands when the centroid test is reached.
\<close>

definition createJson_feature :: "query_config \<Rightarrow> json \<Rightarrow> pyerror + feature_doc" where
  "createJson_feature cfg boundary =
     ebind (geometry_types cfg) (\<lambda>gt.
     ebind (json_tables (cfg_where cfg) (map fst (cfg_where cfg)) init_json_state) (\<lambda>st.
     ebind (select_tables (cfg_select cfg) []) (\<lambda>attributes.
       Inr \<lparr>doc_geometry = boundary, doc_geometryType = gt, doc_tags = tags st\<rparr>)))"

text \<open>
  \<open>feature["centroid"] = true\<close> reads a name that is bound nowhere in the module.
\<close>

definition createJson :: "query_config \<Rightarrow> json \<Rightarrow> bool \<Rightarrow> pyerror + string" where
  "createJson cfg boundary allgeom =
     ebind (createJson_feature cfg boundary) (\<lambda>feature.
       if ''centroid'' \<in> set (config_keys cfg) then Inl (NameError ''true'')
       else Inr (json_dumps (json_of_feature feature)))"

section \<open>\<open>DatabaseAccess.queryLocal\<close>\<close>

text \<open>
  A column of a result row is \<open>None\<close>, a number or a text. The database cursor and the
  WKT parser are outside the repository: the cursor is a state \<open>'db\<close> with its two
  operations, the parser a function, and each may raise.
\<close>

datatype colval = CNull | CInt int | CText string

type_synonym row = "colval list"

record 'g feature =
  geometry :: 'g
  properties :: "(string \<times> colval) list"

datatype 'g query_result = RawRows "row list" | FeatureCollection "'g feature list"

record ('db, 'g) backend =
  execute :: "'db \<Rightarrow> string \<Rightarrow> pyerror + 'db"
  fetchall :: "'db \<Rightarrow> pyerror + row list"
  wkt_loads :: "colval \<Rightarrow> pyerror + 'g"

text \<open>\<open>xs[i]\<close> for an index that is not negative.\<close>

definition list_get :: "'a list \<Rightarrow> nat \<Rightarrow> pyerror + 'a" where
  "list_get xs i = (if i < length xs then Inr (xs ! i) else Inl IndexError)"

text \<open>\<open>s.split(c)\<close> for a separator of one character.\<close>

fun split_char :: "char \<Rightarrow> string \<Rightarrow> string list" where
  "split_char c [] = [[]]"
| "split_char c (x # xs) =
     (if x = c then [] # split_char c xs
      else (case split_char c xs of [] \<Rightarrow> [[x]] | w # ws \<Rightarrow> (x # w) # ws))"

text \<open>
  \<open>s.replace(old, new)\<close>, left to right without overlaps; the counter is the number
  of characters of a match still to be skipped.
\<close>

fun replace_from :: "string \<Rightarrow> string \<Rightarrow> nat \<Rightarrow> string \<Rightarrow> string" where
  "replace_from old new n [] = []"
| "replace_from old new (Suc n) (c # cs) = replace_from old new n cs"
| "replace_from old new 0 (c # cs) =
     (if starts_with old (c # cs) then new @ replace_from old new (length old - 1) cs
      else c # replace_from old new 0 cs)"

definition py_replace :: "string \<Rightarrow> string \<Rightarrow> string \<Rightarrow> string" where
  "py_replace old new s =
     (if old = [] then new @ concat (map (\<lambda>c. c # new) s) else replace_from old new 0 s)"

definition view_sql :: "string \<Rightarrow> string \<Rightarrow> string \<Rightarrow> string \<Rightarrow> string" where
  "view_sql view create table wkt =
     ''DROP VIEW IF EXISTS '' @ view @ '';'' @ create @ '' '' @ view
       @ '' AS SELECT * FROM '' @ table @ '' WHERE ST_CONTAINS(ST_GeomFromEWKT(''
       @ [sq] @ ''SRID=4326;'' @ wkt @ [sq] @ ''), geom)''"

definition rewrite_query :: "string \<Rightarrow> string" where
  "rewrite_query query =
     (if py_find '' ways_poly '' query > 0 then py_replace ''ways_poly'' ''ways_view'' query
      else if py_find '' ways_line '' query > 0 then py_replace ''ways_line'' ''lines_view'' query
      else if py_find '' nodes '' query > 0 then py_replace ''nodes'' ''nodes_view'' query
      else if py_find '' relations '' query > 0
        then py_replace ''relations'' ''relations_view'' query
      else query)"

definition create_views :: "('db, 'g) backend \<Rightarrow> 'db \<Rightarrow> string \<Rightarrow> pyerror + 'db" where
  "create_views be db wkt =
     ebind (execute be db (view_sql ''ways_view'' ''CREATE VIEW'' ''ways_poly'' wkt)) (\<lambda>db1.
     ebind (execute be db1 (view_sql ''nodes_view'' ''CREATE VIEW'' ''nodes'' wkt)) (\<lambda>db2.
     ebind (execute be db2 (view_sql ''lines_view'' ''CREATE VIEW'' ''ways_line'' wkt)) (\<lambda>db3.
       execute be db3 (view_sql ''relations_view'' ''CREATE TEMP VIEW'' ''nodes'' wkt))))"

text \<open>
  The inner loop of the decoder over the select entries of one table: \<open>break\<close> when the
  row is used up, else one column for one entry, kept unless it is \<open>None\<close>.
\<close>

fun decode_entries ::
  "pydict list \<Rightarrow> row \<Rightarrow> nat \<Rightarrow> (string \<times> colval) list
     \<Rightarrow> pyerror + (nat \<times> (string \<times> colval) list)"
where
  "decode_entries [] item i tgs = Inr (i, tgs)"
| "decode_entries (entry # rest) item i tgs =
     (if i = length item then Inr (i, tgs)
      else (case entry of
              [(k, v)] \<Rightarrow>
                ebind (list_get item i) (\<lambda>x.
                  decode_entries rest item (i + 1) (if x \<noteq> CNull then dict_set tgs k x else tgs))
            | _ \<Rightarrow> Inl ValueError))"

text \<open>The outer loop, over \<open>config["select"].items()\<close>: every table, in dictionary order.\<close>

fun decode_tables ::
  "(string \<times> pydict list) list \<Rightarrow> row \<Rightarrow> nat \<Rightarrow> (string \<times> colval) list
     \<Rightarrow> pyerror + (nat \<times> (string \<times> colval) list)"
where
  "decode_tables [] item i tgs = Inr (i, tgs)"
| "decode_tables ((table, entries) # rest) item i tgs =
     ebind (decode_entries entries item i tgs) (\<lambda>r. decode_tables rest item (fst r) (snd r))"

text \<open>With no tables the two property names are read off the text of the query.\<close>

definition decode_custom ::
  "string \<Rightarrow> row \<Rightarrow> (string \<times> colval) list \<Rightarrow> pyerror + (string \<times> colval) list"
where
  "decode_custom query item tgs =
     (let res = split_char CHR '' '' (py_slice_to query (py_find ''FROM'' query))
      in ebind (list_get item 1) (\<lambda>c1.
         ebind (list_get res 2) (\<lambda>r2.
         ebind (list_get item 2) (\<lambda>c2.
         ebind (list_get res 3) (\<lambda>r3.
           Inr (dict_set (dict_set tgs (py_slice_to r2 (- 1)) c1) (py_slice_to r3 (- 1)) c2))))))"

definition decode_row ::
  "('db, 'g) backend \<Rightarrow> query_config \<Rightarrow> string \<Rightarrow> row \<Rightarrow> pyerror + 'g feature"
where
  "decode_row be cfg query item =
     ebind (list_get item 0) (\<lambda>c0.
     ebind (wkt_loads be c0) (\<lambda>geom.
     ebind (list_get item 1) (\<lambda>c1.
     ebind (list_get item 2) (\<lambda>c2.
       (let tgs = dict_set (dict_set [] ''id'' c1) ''version'' c2 in
        if length (cfg_tables cfg) > 0 then
          ebind (decode_tables (cfg_select cfg) item 3 tgs) (\<lambda>r.
            Inr \<lparr>geometry = geom, properties = snd r\<rparr>)
        else
          ebind (wkt_loads be c0) (\<lambda>geom2.
          ebind (decode_custom query item tgs) (\<lambda>tgs2.
            Inr \<lparr>geometry = geom2, properties = tgs2\<rparr>)))))))"

fun rows_loop ::
  "('db, 'g) backend \<Rightarrow> query_config \<Rightarrow> string \<Rightarrow> row list \<Rightarrow> row list \<Rightarrow> 'g feature list
     \<Rightarrow> pyerror + 'g query_result"
where
  "rows_loop be cfg query result [] features = Inr (FeatureCollection features)"
| "rows_loop be cfg query result (item # rest) features =
     (if length item \<le> 1 \<and> length result = 1 then Inr (RawRows result)
      else ebind (decode_row be cfg query item) (\<lambda>f.
             rows_loop be cfg query result rest (features @ [f])))"

text \<open>\<open>len(where["ways_poly"]) == 0 and len(where["nodes"]) == 0\<close>\<close>

definition no_filters :: "query_config \<Rightarrow> pyerror + bool" where
  "no_filters cfg =
     ebind (dict_get (cfg_where cfg) ''ways_poly'') (\<lambda>wp.
       if length wp = 0 then ebind (dict_get (cfg_where cfg) ''nodes'') (\<lambda>nd. Inr (length nd = 0))
       else Inr False)"

text \<open>
  The boundary that \<open>queryLocal\<close> is given: a shapely polygon, of which the function
  reads the WKT text and, in \<open>if boundary:\<close>, the truth value, which is false for an
  empty geometry. \<open>None\<close> is a call without boundary.
\<close>

record polygon =
  poly_wkt :: string
  poly_is_empty :: bool

text \<open>
  \<open>if boundary:\<close> holds for a polygon that is not empty: then the four views are
  created and the query is turned to its view.
\<close>

definition prepare_query ::
  "('db, 'g) backend \<Rightarrow> 'db \<Rightarrow> string \<Rightarrow> polygon option \<Rightarrow> pyerror + ('db \<times> string)"
where
  "prepare_query be db query boundary =
     (case boundary of
        None \<Rightarrow> Inr (db, query)
      | Some p \<Rightarrow>
          if poly_is_empty p then Inr (db, query)
          else ebind (create_views be db (poly_wkt p)) (\<lambda>db4. Inr (db4, rewrite_query query)))"

text \<open>The result comes with the state the cursor is left in.\<close>

definition queryLocal ::
  "('db, 'g) backend \<Rightarrow> query_config \<Rightarrow> 'db \<Rightarrow> string \<Rightarrow> bool \<Rightarrow> polygon option
     \<Rightarrow> pyerror + ('g query_result \<times> 'db)"
where
  "queryLocal be cfg db query allgeom boundary =
     ebind (prepare_query be db query boundary) (\<lambda>dq.
     ebind (execute be (fst dq) (snd dq)) (\<lambda>db5.
       (case fetchall be db5 of
          Inl e \<Rightarrow> Inr (FeatureCollection [], db5)
        | Inr result \<Rightarrow>
            ebind (no_filters cfg) (\<lambda>nf.
              if nf then Inr (RawRows result, db5)
              else ebind (rows_loop be cfg (snd dq) result result [])
                     (\<lambda>r. Inr (r, db5))))))"

section \<open>\<open>DatabaseAccess.queryRemote\<close>\<close>

text \<open>
  The HTTP session is outside the repository. A request either raises or returns a
  response; a response has a status code and a body, \<open>None\<close> when the body is not JSON
  (\<open>Response.json()\<close> then raises). The answers of the status endpoint are a sequence,
  read by the number of the poll; the download of the archive, its unpacking and the
  parsing of \<open>Export.geojson\<close> are one operation of the environment.
\<close>

datatype response = Response (status_code: int) (body: "json option")

datatype http_outcome = Raises pyerror | Returns response

record remote_api =
  post :: "string \<Rightarrow> http_outcome"
  get_status :: "json \<Rightarrow> nat \<Rightarrow> http_outcome"
  download :: "json \<Rightarrow> pyerror + json"

definition response_json :: "response \<Rightarrow> pyerror + json" where
  "response_json r = (case body r of None \<Rightarrow> Inl JSONDecodeError | Some j \<Rightarrow> Inr j)"

text \<open>\<open>j.get(k)\<close>: only a dictionary has the method.\<close>

definition json_get :: "json \<Rightarrow> string \<Rightarrow> pyerror + json" where
  "json_get j k =
     (case j of
        JObj kvs \<Rightarrow> Inr (case map_of kvs k of None \<Rightarrow> JNull | Some v \<Rightarrow> v)
      | _ \<Rightarrow> Inl AttributeError)"

text \<open>\<open>j[0]\<close>\<close>

definition json_first :: "json \<Rightarrow> pyerror + json" where
  "json_first j =
     (case j of
        JArr xs \<Rightarrow> (case xs of [] \<Rightarrow> Inl IndexError | x # _ \<Rightarrow> Inr x)
      | JStr s \<Rightarrow> (case s of [] \<Rightarrow> Inl IndexError | c # _ \<Rightarrow> Inr (JStr [c]))
      | JObj kvs \<Rightarrow> Inl (KeyError ''0'')
      | _ \<Rightarrow> Inl TypeError)"

text \<open>\<open>j[k]\<close> for a key that is a string.\<close>

definition json_item_at :: "json \<Rightarrow> string \<Rightarrow> pyerror + json" where
  "json_item_at j k = (case j of JObj kvs \<Rightarrow> dict_get kvs k | _ \<Rightarrow> Inl TypeError)"

text \<open>\<open>Response.raise_for_status\<close> raises for the codes 400 to 599.\<close>

definition raises_for_status :: "response \<Rightarrow> bool" where
  "raises_for_status r = (400 \<le> status_code r \<and> status_code r < 600)"

text \<open>
  The submission, up to the start of the polling loop: either the function has returned
  (\<open>Returned\<close>), or polling starts with the task id.
\<close>

datatype submitted = Returned "json option" | Polling json

definition submit :: "remote_api \<Rightarrow> string \<Rightarrow> pyerror + submitted" where
  "submit api query =
     (case post api query of
        Raises e \<Rightarrow> (if e = HTTPError then Inr (Returned None) else Inl e)
      | Returns r \<Rightarrow>
          if raises_for_status r then
            ebind (response_json r) (\<lambda>error_dict.
              (case error_dict of
                 JObj kvs \<Rightarrow>
                   Inr (Returned (Some (JObj (dict_set kvs ''status_code'' (JInt (status_code r))))))
               | _ \<Rightarrow> Inl TypeError))
          else if status_code r \<noteq> 200 then
            ebind (response_json r) (\<lambda>j.
            ebind (json_get j ''detail'') (\<lambda>d.
            ebind (json_first d) (\<lambda>x.
            ebind (json_get x ''msg'') (\<lambda>error_message. Inr (Returned None)))))
          else
            ebind (response_json r) (\<lambda>j.
            ebind (json_get j ''task_id'') (\<lambda>task_id. Inr (Polling task_id))))"

text \<open>
  The polling loop. \<open>n\<close> counts the polls, \<open>sleeps\<close> records every \<open>time.sleep\<close>. The
  loop has no bound of its own, so the function is partial: \<open>None\<close> is a run that never
  ends. \<open>Some (Inr (None, _))\<close> is the \<open>else\<close> branch of the \<open>while\<close> (the time is used
  up), \<open>Some (Inr (Some j, _))\<close> the \<open>break\<close> with the last status document.
\<close>

partial_function (option) poll ::
  "remote_api \<Rightarrow> json \<Rightarrow> nat \<Rightarrow> nat \<Rightarrow> nat \<Rightarrow> nat list \<Rightarrow> (pyerror + (json option \<times> nat list)) option"
where
  "poll api task_id n elapsed_time polling_interval sleeps =
     (if elapsed_time < 600 then
        (case get_status api task_id n of
           Raises e \<Rightarrow> Some (Inl e)
         | Returns r \<Rightarrow>
             (case response_json r of
                Inl e \<Rightarrow> Some (Inl e)
              | Inr result_json \<Rightarrow>
                  (case json_get result_json ''status'' of
                     Inl e \<Rightarrow> Some (Inl e)
                   | Inr status \<Rightarrow>
                       if status = JStr ''PENDING'' then
                         (let interval = (if elapsed_time > 60 then 10 else polling_interval)
                          in poll api task_id (n + 1) (elapsed_time + interval) interval
                               (sleeps @ [interval]))
                       else if status = JStr ''SUCCESS'' then Some (Inr (Some result_json, sleeps))
                       else poll api task_id (n + 1) elapsed_time polling_interval sleeps)))
      else Some (Inr (None, sleeps)))"

declare poll.simps [code]

text \<open>What follows the loop when it ended by \<open>break\<close>.\<close>

definition fetch_export :: "remote_api \<Rightarrow> json \<Rightarrow> pyerror + json" where
  "fetch_export api result_json =
     ebind (json_item_at result_json ''result'') (\<lambda>res.
     ebind (json_item_at res ''download_url'') (\<lambda>zip_url. download api zip_url))"

text \<open>
  The whole of \<open>queryRemote\<close>: \<open>None\<close> when the polling never ends; \<open>Some (Inl e)\<close> when
  the exception \<open>e\<close> reaches the caller; \<open>Some (Inr (v, sleeps))\<close> when \<open>v\<close> is returned
  (\<open>None\<close> for Python's \<open>None\<close>) after the recorded sleeps.
\<close>

definition queryRemote ::
  "remote_api \<Rightarrow> string \<Rightarrow> (pyerror + (json option \<times> nat list)) option"
where
  "queryRemote api query =
     (case submit api query of
        Inl e \<Rightarrow> Some (Inl e)
      | Inr (Returned v) \<Rightarrow> Some (Inr (v, []))
      | Inr (Polling task_id) \<Rightarrow>
          (case poll api task_id 0 0 2 [] of
             None \<Rightarrow> None
           | Some (Inl e) \<Rightarrow> Some (Inl e)
           | Some (Inr (None, sleeps)) \<Rightarrow> Some (Inr (None, sleeps))
           | Some (Inr (Some result_json, sleeps)) \<Rightarrow>
               (case fetch_export api result_json of
                  Inl e \<Rightarrow> Some (Inl e)
                | Inr data \<Rightarrow> Some (Inr (Some data, sleeps)))))"

section \<open>Where clauses as the specification describes them\<close>

text \<open>
  A filter clause of the data model: one attribute key, a list of text values, and the
  operator. \<open>clause_entry\<close> is the dictionary that the configuration holds for it.
\<close>

record clause =
  c_key :: string
  c_values :: "string list"
  c_op :: string

definition clause_entry :: "clause \<Rightarrow> pydict" where
  "clause_entry c = [(c_key c, PList (map PStr (c_values c))), (''op'', PStr (c_op c))]"

definition wf_clause :: "clause \<Rightarrow> bool" where
  "wf_clause c = (c_key c \<noteq> ''op'' \<and> (c_op c = ''or'' \<or> c_op c = ''and''))"

text \<open>
  The predicate of a clause, following the specification's words: the sentinel alone and
  the empty list give \<open>IS NOT NULL\<close>, one value an equality, more values a membership
  test against the tuple of the values.
\<close>

definition clause_predicate :: "string list \<Rightarrow> string" where
  "clause_predicate vs =
     (if vs = [''not null''] then ''IS NOT NULL''
      else if length vs = 1 then ''='' @ [sq] @ hd vs @ [sq]
      else if 2 \<le> length vs then '' IN ('' @ py_join '', '' (map repr_str vs) @ '')''
      else ''IS NOT NULL'')"

definition clause_text :: "clause \<Rightarrow> string" where
  "clause_text c = ''tags->>'' @ [sq] @ c_key c @ [sq] @ '' '' @ clause_predicate (c_values c)"

definition or_clauses :: "clause list \<Rightarrow> clause list" where
  "or_clauses cs = filter (\<lambda>c. c_op c = ''or'') cs"

definition and_clauses :: "clause list \<Rightarrow> clause list" where
  "and_clauses cs = filter (\<lambda>c. c_op c = ''and'') cs"

text \<open>
  The text after the table name as the code joins it: the clauses of the OR group each
  followed by \<open>OR\<close>, then the clauses of the AND group with \<open>AND\<close> between them; the
  last operator is gone, and so is \<open>WHERE\<close> when there is no clause at all.
\<close>

definition joined_where :: "string list \<Rightarrow> string list \<Rightarrow> string" where
  "joined_where ors ands =
     (if ands \<noteq> [] then
        '' WHERE '' @ concat (map (\<lambda>t. t @ '' OR '') ors) @ '' '' @ py_join '' AND '' ands
      else if ors \<noteq> [] then '' WHERE '' @ py_join '' OR '' ors
      else [])"

text \<open>The same text with the two groups joined by \<open>AND\<close>, as the specification words it.\<close>

definition spec_where :: "string list \<Rightarrow> string list \<Rightarrow> string" where
  "spec_where ors ands =
     (if ors \<noteq> [] \<and> ands \<noteq> [] then
        '' WHERE '' @ py_join '' OR '' ors @ '' AND '' @ py_join '' AND '' ands
      else if ands \<noteq> [] then '' WHERE '' @ py_join '' AND '' ands
      else if ors \<noteq> [] then '' WHERE '' @ py_join '' OR '' ors
      else [])"

section \<open>Example configurations\<close>

definition poly_clauses :: "clause list" where
  "poly_clauses =
     [\<lparr>c_key = ''building'', c_values = [''yes''], c_op = ''or''\<rparr>,
      \<lparr>c_key = ''amenity'', c_values = [''not null''], c_op = ''or''\<rparr>,
      \<lparr>c_key = ''name'', c_values = [], c_op = ''or''\<rparr>,
      \<lparr>c_key = ''highway'', c_values = [''primary'', ''secondary''], c_op = ''and''\<rparr>]"

definition poly_select :: "pydict list" where
  "poly_select = [[(''building'', PList [])], [(''name'', PList [])]]"

definition poly_config :: query_config where
  "poly_config =
     \<lparr>cfg_select = [(''nodes'', []), (''ways_poly'', poly_select), (''ways_line'', [])],
      cfg_tables = [''ways_poly''],
      cfg_where = [(''nodes'', []), (''ways_poly'', map clause_entry poly_clauses),
                   (''ways_line'', [])],
      cfg_other = []\<rparr>"

text \<open>The same configuration with a second table, one that has no where entries.\<close>

definition two_table_config :: query_config where
  "two_table_config = poly_config\<lparr>cfg_tables := [''ways_poly'', ''ways_line'']\<rparr>"

definition two_table_clauses :: "string \<Rightarrow> clause list" where
  "two_table_clauses t = (if t = ''ways_poly'' then poly_clauses else [])"

definition two_table_select :: "string \<Rightarrow> pydict list" where
  "two_table_select t = (if t = ''ways_poly'' then poly_select else [])"

text \<open>One clause in each group.\<close>

definition or_and_clauses :: "clause list" where
  "or_and_clauses =
     [\<lparr>c_key = ''building'', c_values = [''yes''], c_op = ''or''\<rparr>,
      \<lparr>c_key = ''amenity'', c_values = [''school''], c_op = ''and''\<rparr>]"

definition or_and_config :: query_config where
  "or_and_config =
     \<lparr>cfg_select = [(''nodes'', []), (''ways_poly'', []), (''ways_line'', [])],
      cfg_tables = [''nodes''],
      cfg_where = [(''nodes'', map clause_entry or_and_clauses), (''ways_poly'', []),
                   (''ways_line'', [])],
      cfg_other = []\<rparr>"

section \<open>Connection strings of the canonical shapes\<close>

text \<open>A component of a connection string: a text without any of the three separators.\<close>

definition sep_free :: "string \<Rightarrow> bool" where
  "sep_free s = (CHR '':'' \<notin> set s \<and> CHR ''@'' \<notin> set s \<and> CHR ''/'' \<notin> set s)"

text \<open>\<open>host\<close> when a host is given, else the default.\<close>

definition host_or_default :: "string \<Rightarrow> string" where
  "host_or_default host = (if host = [] then ''localhost'' else host)"

section \<open>Example remote services\<close>

definition status_response :: "string \<Rightarrow> response" where
  "status_response s =
     Response 200
       (Some (JObj [(''status'', JStr s),
                    (''result'', JObj [(''download_url'', JStr ''https://example.org/x.zip'')])]))"

text \<open>A service that accepts the request and then reports the same status for ever.\<close>

definition constant_api :: "string \<Rightarrow> remote_api" where
  "constant_api s =
     \<lparr>post = (\<lambda>q. Returns (Response 200 (Some (JObj [(''task_id'', JStr ''abc'')])))),
      get_status = (\<lambda>t n. Returns (status_response s)),
      download = (\<lambda>u. Inr (JObj [(''type'', JStr ''FeatureCollection''), (''features'', JArr [])]))\<rparr>"

text \<open>A service whose task is pending at the first two polls and done at the third.\<close>

definition success_api :: remote_api where
  "success_api =
     (constant_api ''SUCCESS'')
       \<lparr>get_status := (\<lambda>t n. Returns (status_response (if n < 2 then ''PENDING'' else ''SUCCESS'')))\<rparr>"

text \<open>A service that cannot be reached: the request itself raises.\<close>

definition unreachable_api :: remote_api where
  "unreachable_api = (constant_api ''SUCCESS'')\<lparr>post := (\<lambda>q. Raises ConnectionError)\<rparr>"

text \<open>A service that answers the request with the given response.\<close>

definition answering_api :: "response \<Rightarrow> remote_api" where
  "answering_api r = (constant_api ''SUCCESS'')\<lparr>post := (\<lambda>q. Returns r)\<rparr>"

text \<open>
  Every poll of the task is answered by a document whose status is neither \<open>PENDING\<close>
  nor \<open>SUCCESS\<close>.
\<close>

definition never_settles :: "remote_api \<Rightarrow> json \<Rightarrow> bool" where
  "never_settles api task_id =
     (\<forall>n. \<exists>r j s. get_status api task_id n = Returns r \<and> response_json r = Inr j
        \<and> json_get j ''status'' = Inr s \<and> s \<noteq> JStr ''PENDING'' \<and> s \<noteq> JStr ''SUCCESS'')"

text \<open>Every poll of the task is answered by a document whose status is one of the two.\<close>

definition pending_or_success :: "remote_api \<Rightarrow> json \<Rightarrow> bool" where
  "pending_or_success api task_id =
     (\<forall>n. \<exists>r j s. get_status api task_id n = Returns r \<and> response_json r = Inr j
        \<and> json_get j ''status'' = Inr s \<and> (s = JStr ''PENDING'' \<or> s = JStr ''SUCCESS''))"

section \<open>Configurations that \<open>createJson\<close> can walk through\<close>

text \<open>
  The shape of a configuration as the data model gives it: the three geometry classes
  are present under \<open>select\<close> and \<open>where\<close>, a select entry is a dictionary of one pair,
  a filter clause has a key and its operator, and filters stand only under the three
  geometry classes.
\<close>

definition geometry_classes :: "string list" where
  "geometry_classes = [''nodes'', ''ways_line'', ''ways_poly'']"

definition wf_where_item :: "pydict \<Rightarrow> bool" where
  "wf_where_item item = (item \<noteq> [] \<and> map_of item ''op'' \<noteq> None)"

definition wf_where_table :: "string \<times> pydict list \<Rightarrow> bool" where
  "wf_where_table ti =
     (snd ti = [] \<or> (fst ti \<in> set geometry_classes \<and> list_all wf_where_item (snd ti)))"

definition wf_select_table :: "string \<times> pydict list \<Rightarrow> bool" where
  "wf_select_table te = list_all (\<lambda>entry. length entry = 1) (snd te)"

definition wf_config :: "query_config \<Rightarrow> bool" where
  "wf_config cfg =
     (list_all (\<lambda>t. map_of (cfg_select cfg) t \<noteq> None \<and> map_of (cfg_where cfg) t \<noteq> None)
        geometry_classes
      \<and> list_all wf_where_table (cfg_where cfg)
      \<and> list_all wf_select_table (cfg_select cfg))"

text \<open>The three geometry classes are the keys of each dictionary that the loop updates.\<close>

definition class_keys :: "(string \<times> 'a) list \<Rightarrow> bool" where
  "class_keys d = (map fst d = [''point'', ''polygon'', ''line''])"

definition keys_ok :: "json_state \<Rightarrow> bool" where
  "keys_ok st = (class_keys (or_keys st) \<and> class_keys (and_keys st) \<and> class_keys (tags st))"

text \<open>A boundary polygon, and the earlier configuration with the key \<open>centroid\<close>.\<close>

definition example_boundary :: json where
  "example_boundary =
     JObj [(''type'', JStr ''Polygon''),
           (''coordinates'',
            JArr [JArr [JArr [JNum ''83.96'', JNum ''28.19''], JArr [JNum ''83.99'', JNum ''28.19''],
                        JArr [JNum ''83.99'', JNum ''28.21''], JArr [JNum ''83.96'', JNum ''28.19'']]])]"

definition centroid_config :: query_config where
  "centroid_config = poly_config\<lparr>cfg_other := [''centroid'']\<rparr>"

section \<open>Example databases\<close>

text \<open>
  A cursor that records the statements it is given and answers every query with the
  same rows; the geometry of a feature is the WKT text itself.
\<close>

definition fixed_backend :: "row list \<Rightarrow> (string list, string) backend" where
  "fixed_backend rows =
     \<lparr>execute = (\<lambda>db q. Inr (db @ [q])),
      fetchall = (\<lambda>db. Inr rows),
      wkt_loads = (\<lambda>c. case c of CText s \<Rightarrow> Inr s | _ \<Rightarrow> Inl TypeError)\<rparr>"

definition building_row :: row where
  "building_row = [CText ''POLYGON((0 0,0 1,1 1,0 0))'', CInt 101, CInt 2, CText ''yes'']"

definition named_row :: row where
  "named_row = [CText ''POLYGON((0 0,0 1,1 1,0 0))'', CInt 101, CInt 2, CText ''yes'', CNull]"

text \<open>A configuration without any filter.\<close>

definition unfiltered_config :: query_config where
  "unfiltered_config =
     \<lparr>cfg_select = [(''nodes'', []), (''ways_poly'', poly_select), (''ways_line'', [])],
      cfg_tables = [''ways_poly''],
      cfg_where = [(''nodes'', []), (''ways_poly'', []), (''ways_line'', [])],
      cfg_other = []\<rparr>"

text \<open>A configuration that selects attributes of two geometry classes.\<close>

definition two_class_config :: query_config where
  "two_class_config =
     \<lparr>cfg_select = [(''nodes'', [[(''amenity'', PList [])]]),
                    (''ways_poly'', [[(''building'', PList [])]]), (''ways_line'', [])],
      cfg_tables = [''nodes'', ''ways_poly''],
      cfg_where =
        [(''nodes'', [clause_entry \<lparr>c_key = ''amenity'', c_values = [''not null''], c_op = ''or''\<rparr>]),
         (''ways_poly'', [clause_entry \<lparr>c_key = ''building'', c_values = [''yes''], c_op = ''or''\<rparr>]),
         (''ways_line'', [])],
      cfg_other = []\<rparr>"

text \<open>The projection of one selected attribute, and the geometry column.\<close>

definition attribute_column :: "string \<times> pyval \<Rightarrow> string" where
  "attribute_column a = '', tags->>'' @ [sq] @ fst a @ [sq]"

definition geometry_column :: "bool \<Rightarrow> string" where
  "geometry_column allgeom =
     (if allgeom then ''ST_AsText(geom)'' else ''ST_AsText(ST_Centroid(geom))'')"

text \<open>Two clauses in the AND group, the first without values.\<close>

definition and_empty_clauses :: "clause list" where
  "and_empty_clauses =
     [\<lparr>c_key = ''name'', c_values = [], c_op = ''and''\<rparr>,
      \<lparr>c_key = ''building'', c_values = [''yes''], c_op = ''and''\<rparr>]"

definition and_empty_config :: query_config where
  "and_empty_config =
     \<lparr>cfg_select = [(''nodes'', []), (''ways_poly'', []), (''ways_line'', [])],
      cfg_tables = [''nodes''],
      cfg_where = [(''nodes'', map clause_entry and_empty_clauses), (''ways_poly'', []),
                   (''ways_line'', [])],
      cfg_other = []\<rparr>"

section \<open>Properties of \<open>createSQL\<close>\<close>

lemma ebind_Inr [simp]: "ebind (Inr x) f = f x"
  by (simp add: ebind_def)

lemma ebind_Inl [simp]: "ebind (Inl e) f = Inl e"
  by (simp add: ebind_def)

lemma dict_get_Some: "map_of d k = Some v \<Longrightarrow> dict_get d k = Inr v"
  by (simp add: dict_get_def)

subsection \<open>The two groups\<close>

lemma items_loop_clause:
  "wf_clause c \<Longrightarrow> items_loop e (PStr (c_op c)) (clause_entry c) (jo, ja) =
     (if c_op c = ''or'' then (jo @ [e], ja) else (jo, ja @ [e]))"
  by (auto simp: wf_clause_def clause_entry_def)

lemma where_loop_clauses:
  "list_all wf_clause cs \<Longrightarrow>
   where_loop (map clause_entry cs) (jo, ja) =
     Inr (jo @ map clause_entry (or_clauses cs), ja @ map clause_entry (and_clauses cs))"
proof (induction cs arbitrary: jo ja)
  case Nil
  then show ?case by (simp add: or_clauses_def and_clauses_def)
next
  case (Cons c cs)
  have wf: "wf_clause c" and rest: "list_all wf_clause cs" using Cons.prems by simp_all
  have opv: "dict_get (clause_entry c) ''op'' = Inr (PStr (c_op c))"
    using wf by (auto simp: dict_get_def clause_entry_def wf_clause_def)
  show ?case
    using Cons.IH [OF rest] wf
    by (auto simp: opv items_loop_clause or_clauses_def and_clauses_def wf_clause_def)
qed

subsection \<open>The text of a clause\<close>

lemma or_value_text_strings: "or_value_text (PList (map PStr vs)) = clause_predicate vs"
proof (cases vs)
  case Nil
  then show ?thesis by (simp add: or_value_text_def clause_predicate_def py_len_def)
next
  case (Cons v ws)
  show ?thesis
  proof (cases ws)
    case Nil
    then show ?thesis using Cons
      by (simp add: or_value_text_def clause_predicate_def py_len_def py_elems_def py_str_def)
  next
    case (Cons w xs)
    then show ?thesis using \<open>vs = v # ws\<close>
      by (simp add: or_value_text_def clause_predicate_def py_len_def py_elems_def
          py_tuple_str_def comp_def)
  qed
qed

lemma and_value_text_strings:
  "and_value_text (PList (map PStr vs)) = clause_predicate vs @ (if vs = [] then '' AND'' else [])"
proof (cases vs)
  case Nil
  then show ?thesis by (simp add: and_value_text_def clause_predicate_def py_len_def)
next
  case (Cons v ws)
  show ?thesis
  proof (cases ws)
    case Nil
    then show ?thesis using Cons
      by (simp add: and_value_text_def clause_predicate_def py_len_def py_elems_def py_str_def)
  next
    case (Cons w xs)
    then show ?thesis using \<open>vs = v # ws\<close>
      by (simp add: and_value_text_def clause_predicate_def py_len_def py_elems_def
          py_tuple_str_def comp_def)
  qed
qed

lemma jor_item_strings:
  "k \<noteq> ''op'' \<Longrightarrow>
   jor_item (k, PList (map PStr vs)) =
     ''tags->>'' @ [sq] @ k @ [sq] @ '' '' @ clause_predicate vs @ '' OR ''"
  by (cases vs) (simp_all add: or_value_text_strings [symmetric])

lemma jor_entry:
  "wf_clause c \<Longrightarrow> concat (map jor_item (clause_entry c)) = clause_text c @ '' OR ''"
  by (simp add: clause_entry_def wf_clause_def jor_item_strings clause_text_def)

lemma jand_entry:
  "wf_clause c \<Longrightarrow>
   concat (map jand_item (clause_entry c)) =
     clause_text c @ (if c_values c = [] then '' AND AND '' else '' AND '')"
  by (simp add: clause_entry_def wf_clause_def jand_item_def and_value_text_strings
      clause_text_def)

lemma jor_text_clauses:
  "list_all wf_clause cs \<Longrightarrow>
   jor_text (map clause_entry cs) = concat (map (\<lambda>c. clause_text c @ '' OR '') cs)"
  by (induction cs) (simp_all add: jor_text_def jor_entry)

lemma jand_text_clauses:
  "list_all wf_clause cs \<Longrightarrow>
   jand_text (map clause_entry cs) =
     concat (map (\<lambda>c. clause_text c @ (if c_values c = [] then '' AND AND '' else '' AND '')) cs)"
  by (induction cs) (simp_all add: jand_text_def jand_entry)

lemma table_sql_clauses:
  assumes "map_of (cfg_select cfg) t = Some sel"
    and "map_of (cfg_where cfg) t = Some (map clause_entry cs)"
    and "list_all wf_clause cs"
  shows "table_sql cfg allgeom t =
     Inr (trim_query
            (select_text allgeom sel @ '' FROM '' @ t @ '' WHERE ''
               @ concat (map (\<lambda>c. clause_text c @ '' OR '') (or_clauses cs)) @ '' ''
               @ concat (map (\<lambda>c. clause_text c
                                @ (if c_values c = [] then '' AND AND '' else '' AND ''))
                          (and_clauses cs))))"
proof -
  have o: "list_all wf_clause (or_clauses cs)" and a: "list_all wf_clause (and_clauses cs)"
    using assms(3) by (simp_all add: or_clauses_def and_clauses_def list_all_iff)
  show ?thesis
    using where_loop_clauses [OF assms(3), of "[]" "[]"]
    by (simp add: table_sql_def dict_get_Some [OF assms(1)] dict_get_Some [OF assms(2)]
        jor_text_clauses [OF o] jand_text_clauses [OF a])
qed

lemma createSQL_loop_map:
  "(\<And>t. t \<in> set ts \<Longrightarrow> table_sql cfg allgeom t = Inr (f t)) \<Longrightarrow>
   createSQL_loop cfg allgeom ts acc = Inr (acc @ map f ts)"
  by (induction ts arbitrary: acc) simp_all

text \<open>
  The statement of each table, for a configuration whose declared tables hold filter
  clauses of the data model (one key, text values, the operator \<open>or\<close> or \<open>and\<close>):
  one text per clause, \<open>tags->>'key'\<close> followed by the predicate that the value list
  selects (\<open>clause_predicate\<close>). Each clause of the OR group is followed by \<open>OR\<close>, each
  clause of the AND group by \<open>AND\<close>, written twice after a clause with no values.
\<close>

theorem createSQL_clause_rendering:
  assumes "\<And>t. t \<in> set (cfg_tables cfg) \<Longrightarrow> map_of (cfg_select cfg) t = Some (sel t)"
    and "\<And>t. t \<in> set (cfg_tables cfg) \<Longrightarrow>
           map_of (cfg_where cfg) t = Some (map clause_entry (cl t))"
    and "\<And>t. t \<in> set (cfg_tables cfg) \<Longrightarrow> list_all wf_clause (cl t)"
  shows "createSQL cfg allgeom =
     Inr (map (\<lambda>t. trim_query
                 (select_text allgeom (sel t) @ '' FROM '' @ t @ '' WHERE ''
                    @ concat (map (\<lambda>c. clause_text c @ '' OR '') (or_clauses (cl t))) @ '' ''
                    @ concat (map (\<lambda>c. clause_text c
                                     @ (if c_values c = [] then '' AND AND '' else '' AND ''))
                               (and_clauses (cl t)))))
            (cfg_tables cfg))"
  unfolding createSQL_def
  using createSQL_loop_map [of "cfg_tables cfg" cfg allgeom _ "[]"]
    table_sql_clauses [OF assms]
  by simp

theorem createSQL_clause_rendering_witness:
  "createSQL poly_config True =
     Inr [''SELECT ST_AsText(geom), osm_id, version, tags->>'building', tags->>'name' FROM ways_poly WHERE tags->>'building' ='yes' OR tags->>'amenity' IS NOT NULL OR tags->>'name' IS NOT NULL OR  tags->>'highway'  IN ('primary', 'secondary')'']"
proof -
  have s: "\<And>t. t \<in> set (cfg_tables poly_config) \<Longrightarrow>
             map_of (cfg_select poly_config) t = Some ((\<lambda>t. poly_select) t)"
    by (simp add: poly_config_def)
  have w: "\<And>t. t \<in> set (cfg_tables poly_config) \<Longrightarrow>
             map_of (cfg_where poly_config) t = Some (map clause_entry ((\<lambda>t. poly_clauses) t))"
    by (simp add: poly_config_def)
  have f: "\<And>t. t \<in> set (cfg_tables poly_config) \<Longrightarrow>
             list_all wf_clause ((\<lambda>t. poly_clauses) t)"
    by (simp add: poly_clauses_def wf_clause_def)
  have "createSQL poly_config True =
     Inr (map (\<lambda>t. trim_query
                 (select_text True poly_select @ '' FROM '' @ t @ '' WHERE ''
                    @ concat (map (\<lambda>c. clause_text c @ '' OR '') (or_clauses poly_clauses))
                    @ '' ''
                    @ concat (map (\<lambda>c. clause_text c
                                     @ (if c_values c = [] then '' AND AND '' else '' AND ''))
                               (and_clauses poly_clauses))))
            (cfg_tables poly_config))"
    using createSQL_clause_rendering
      [of poly_config "\<lambda>t. poly_select" "\<lambda>t. poly_clauses" True, OF s w f]
    by simp
  also have "\<dots> = Inr [''SELECT ST_AsText(geom), osm_id, version, tags->>'building', tags->>'name' FROM ways_poly WHERE tags->>'building' ='yes' OR tags->>'amenity' IS NOT NULL OR tags->>'name' IS NOT NULL OR  tags->>'highway'  IN ('primary', 'secondary')'']"
    by code_simp
  finally show ?thesis .
qed

text \<open>
  Claim C1. A clause of the AND group with no values is not rendered as \<open>IS NOT NULL\<close>
  alone: its text is \<open>IS NOT NULL AND\<close>, and with the operator that follows every clause
  of the group the statement reads \<open>AND AND\<close>. The same clause in the OR group is rendered
  as \<open>IS NOT NULL\<close>.
\<close>

theorem createSQL_and_without_values:
  "and_value_text (PList []) = ''IS NOT NULL AND''
   \<and> or_value_text (PList []) = ''IS NOT NULL''
   \<and> createSQL and_empty_config True =
       Inr [''SELECT ST_AsText(geom), osm_id, version FROM nodes WHERE  tags->>'name' IS NOT NULL AND AND tags->>'building' ='yes'' @ [sq]]"
  by code_simp

subsection \<open>Trimming the statement\<close>

lemma py_rstrip_append:
  assumes "x \<noteq> []" "\<not> py_isspace (last x)" "list_all py_isspace sp"
  shows "py_rstrip (x @ sp) = x"
proof -
  have "dropWhile py_isspace (rev sp @ rev x) = dropWhile py_isspace (rev x)"
    using assms(3) by (simp add: dropWhile_append list_all_iff)
  moreover have "dropWhile py_isspace (rev x) = rev x"
    using assms(1,2) by (cases "rev x") (auto simp: last_rev hd_rev)
  ultimately show ?thesis by (simp add: py_rstrip_def)
qed

lemma py_rfind_none: "c \<notin> set w \<Longrightarrow> py_rfind [c] w = - 1"
  by (induction w) auto

lemma py_rfind_last: "c \<notin> set w \<Longrightarrow> py_rfind [c] (s @ c # w) = int (length s)"
  by (induction s) (auto simp: py_rfind_none Let_def)

lemma py_slice_to_prefix: "py_slice_to (s @ t) (int (length s)) = s"
  by (simp add: py_slice_to_def slice_bound_def)

lemma trim_query_word:
  assumes "w \<noteq> []" "\<not> py_isspace (last w)" "CHR '' '' \<notin> set w" "list_all py_isspace sp"
  shows "trim_query (s @ '' '' @ w @ sp) = s"
proof -
  have "py_rstrip ((s @ '' '' @ w) @ sp) = s @ '' '' @ w"
    using assms by (intro py_rstrip_append) auto
  then have r: "py_rstrip (s @ '' '' @ w @ sp) = s @ CHR '' '' # w" by simp
  show ?thesis
    unfolding trim_query_def r Let_def
    using py_rfind_last [OF assms(3), of s] py_slice_to_prefix [of s "CHR '' '' # w"]
    by simp
qed

lemma trim_and: "trim_query (s @ '' AND '') = s"
  using trim_query_word [of "''AND''" "'' ''" s] by (simp add: py_isspace_def)

lemma trim_or: "trim_query (s @ '' OR  '') = s"
  using trim_query_word [of "''OR''" "''  ''" s] by (simp add: py_isspace_def)

lemma trim_where: "trim_query (s @ '' WHERE  '') = s"
  using trim_query_word [of "''WHERE''" "''  ''" s] by (simp add: py_isspace_def)

lemma concat_sep: "xs \<noteq> [] \<Longrightarrow> concat (map (\<lambda>t. t @ sep) xs) = py_join sep xs @ sep"
  by (induction sep xs rule: py_join.induct) simp_all

lemma trim_groups:
  "trim_query (pre @ '' WHERE '' @ concat (map (\<lambda>t. t @ '' OR '') ors) @ '' ''
                 @ concat (map (\<lambda>t. t @ '' AND '') ands))
   = pre @ joined_where ors ands"
proof (cases "ands = []")
  case False
  have "pre @ '' WHERE '' @ concat (map (\<lambda>t. t @ '' OR '') ors) @ '' ''
          @ concat (map (\<lambda>t. t @ '' AND '') ands)
        = (pre @ '' WHERE '' @ concat (map (\<lambda>t. t @ '' OR '') ors) @ '' ''
          @ py_join '' AND '' ands) @ '' AND ''"
    using False by (simp add: concat_sep)
  then show ?thesis using False by (simp only: trim_and joined_where_def if_True if_False) simp
next
  case True
  show ?thesis
  proof (cases "ors = []")
    case True
    have "pre @ '' WHERE '' @ concat (map (\<lambda>t. t @ '' OR '') ors) @ '' ''
          @ concat (map (\<lambda>t. t @ '' AND '') ands) = pre @ '' WHERE  ''"
      using True \<open>ands = []\<close> by simp
    then show ?thesis using True \<open>ands = []\<close> by (simp only: trim_where joined_where_def) simp
  next
    case False
    have "pre @ '' WHERE '' @ concat (map (\<lambda>t. t @ '' OR '') ors) @ '' ''
          @ concat (map (\<lambda>t. t @ '' AND '') ands)
          = (pre @ '' WHERE '' @ py_join '' OR '' ors) @ '' OR  ''"
      using False \<open>ands = []\<close> by (simp add: concat_sep)
    then show ?thesis using False \<open>ands = []\<close> by (simp only: trim_or joined_where_def) simp
  qed
qed

lemma and_suffix_nonempty:
  "(\<And>c. c \<in> set cs \<Longrightarrow> c_values c \<noteq> []) \<Longrightarrow>
   concat (map (\<lambda>c. clause_text c @ (if c_values c = [] then '' AND AND '' else '' AND '')) cs)
     = concat (map (\<lambda>t. t @ '' AND '') (map clause_text cs))"
  by (induction cs) simp_all

text \<open>
  Claim C2, as stated, fails. With one clause in each group the two groups are joined by
  the \<open>OR\<close> that follows the OR group, and no \<open>AND\<close> stands between them.
\<close>

theorem createSQL_groups_counterexample:
  "createSQL or_and_config True =
     Inr [''SELECT ST_AsText(geom), osm_id, version FROM nodes WHERE tags->>'building' ='yes' OR  tags->>'amenity' ='school'' @ [sq]]
   \<and> createSQL or_and_config True \<noteq>
     Inr [select_text True [] @ '' FROM nodes''
            @ spec_where (map clause_text (or_clauses or_and_clauses))
                (map clause_text (and_clauses or_and_clauses))]"
  by code_simp

text \<open>
  Claim C2, amended. For every configuration whose declared tables hold filter clauses
  of the data model, every clause of the AND group having at least one value,
  \<open>createSQL\<close> succeeds and the statement of each table is the select list,
  \<open>FROM\<close> and the table, followed by what \<open>joined_where\<close> builds: nothing for a table
  without clauses (the \<open>WHERE\<close> is cut off); else \<open>WHERE\<close>, the clauses of the OR group
  each followed by \<open>OR\<close>, then the clauses of the AND group with \<open>AND\<close> between them, the
  statement ending with the text of its last clause.
\<close>

theorem createSQL_joined:
  assumes "\<And>t. t \<in> set (cfg_tables cfg) \<Longrightarrow> map_of (cfg_select cfg) t = Some (sel t)"
    and "\<And>t. t \<in> set (cfg_tables cfg) \<Longrightarrow>
           map_of (cfg_where cfg) t = Some (map clause_entry (cl t))"
    and "\<And>t. t \<in> set (cfg_tables cfg) \<Longrightarrow> list_all wf_clause (cl t)"
    and "\<And>t c. t \<in> set (cfg_tables cfg) \<Longrightarrow> c \<in> set (and_clauses (cl t)) \<Longrightarrow> c_values c \<noteq> []"
  shows "createSQL cfg allgeom =
     Inr (map (\<lambda>t. select_text allgeom (sel t) @ '' FROM '' @ t
                  @ joined_where (map clause_text (or_clauses (cl t)))
                      (map clause_text (and_clauses (cl t))))
            (cfg_tables cfg))"
proof -
  have "table_sql cfg allgeom t =
      Inr (select_text allgeom (sel t) @ '' FROM '' @ t
                  @ joined_where (map clause_text (or_clauses (cl t)))
                      (map clause_text (and_clauses (cl t))))"
    if t: "t \<in> set (cfg_tables cfg)" for t
  proof -
    have ne: "\<And>c. c \<in> set (and_clauses (cl t)) \<Longrightarrow> c_values c \<noteq> []"
      using assms(4) t by blast
    have "trim_query
            (select_text allgeom (sel t) @ '' FROM '' @ t @ '' WHERE ''
               @ concat (map (\<lambda>c. clause_text c @ '' OR '') (or_clauses (cl t))) @ '' ''
               @ concat (map (\<lambda>c. clause_text c
                                @ (if c_values c = [] then '' AND AND '' else '' AND ''))
                          (and_clauses (cl t))))
         = (select_text allgeom (sel t) @ '' FROM '' @ t)
             @ joined_where (map clause_text (or_clauses (cl t)))
                      (map clause_text (and_clauses (cl t)))"
      using trim_groups [of "select_text allgeom (sel t) @ '' FROM '' @ t"
          "map clause_text (or_clauses (cl t))" "map clause_text (and_clauses (cl t))"]
      by (simp add: and_suffix_nonempty [OF ne] comp_def)
    then show ?thesis
      using table_sql_clauses [OF assms(1) [OF t] assms(2) [OF t] assms(3) [OF t], of allgeom]
      by simp
  qed
  then show ?thesis
    unfolding createSQL_def
    using createSQL_loop_map [of "cfg_tables cfg" cfg allgeom _ "[]"] by simp
qed

theorem createSQL_joined_witness:
  "createSQL two_table_config True =
     Inr [''SELECT ST_AsText(geom), osm_id, version, tags->>'building', tags->>'name' FROM ways_poly WHERE tags->>'building' ='yes' OR tags->>'amenity' IS NOT NULL OR tags->>'name' IS NOT NULL OR  tags->>'highway'  IN ('primary', 'secondary')'',
          ''SELECT ST_AsText(geom), osm_id, version FROM ways_line'']"
proof -
  have s: "\<And>t. t \<in> set (cfg_tables two_table_config) \<Longrightarrow>
             map_of (cfg_select two_table_config) t = Some (two_table_select t)"
    by (auto simp: two_table_config_def poly_config_def two_table_select_def)
  have w: "\<And>t. t \<in> set (cfg_tables two_table_config) \<Longrightarrow>
             map_of (cfg_where two_table_config) t = Some (map clause_entry (two_table_clauses t))"
    by (auto simp: two_table_config_def poly_config_def two_table_clauses_def)
  have f: "\<And>t. t \<in> set (cfg_tables two_table_config) \<Longrightarrow>
             list_all wf_clause (two_table_clauses t)"
    by (simp add: two_table_clauses_def poly_clauses_def wf_clause_def)
  have n: "\<And>t c. t \<in> set (cfg_tables two_table_config) \<Longrightarrow>
             c \<in> set (and_clauses (two_table_clauses t)) \<Longrightarrow> c_values c \<noteq> []"
    by (auto simp: two_table_clauses_def poly_clauses_def and_clauses_def split: if_splits)
  have "createSQL two_table_config True =
     Inr (map (\<lambda>t. select_text True (two_table_select t) @ '' FROM '' @ t
                  @ joined_where (map clause_text (or_clauses (two_table_clauses t)))
                      (map clause_text (and_clauses (two_table_clauses t))))
            (cfg_tables two_table_config))"
    using createSQL_joined [of two_table_config two_table_select two_table_clauses True, OF s w f n]
    by simp
  also have "\<dots> = Inr [''SELECT ST_AsText(geom), osm_id, version, tags->>'building', tags->>'name' FROM ways_poly WHERE tags->>'building' ='yes' OR tags->>'amenity' IS NOT NULL OR tags->>'name' IS NOT NULL OR  tags->>'highway'  IN ('primary', 'secondary')'',
          ''SELECT ST_AsText(geom), osm_id, version FROM ways_line'']"
    by code_simp
  finally show ?thesis .
qed

section \<open>Properties of \<open>uriParser\<close>\<close>

lemma py_find_none: "c \<notin> set s \<Longrightarrow> py_find [c] s = - 1"
  by (induction s) auto

lemma py_find_first: "c \<notin> set u \<Longrightarrow> py_find [c] (u @ c # r) = int (length u)"
  by (induction u) (auto simp: Let_def)

lemma py_slice_middle:
  "py_slice (a @ b @ c) (int (length a)) (int (length a + length b)) = b"
  by (simp add: py_slice_def slice_bound_def)

lemma py_slice_from_suffix: "py_slice_from (a @ b) (int (length a)) = b"
  by (simp add: py_slice_from_def slice_bound_def)

lemma uri_bare_name:
  assumes "sep_free name"
  shows "uriParser name =
     \<lparr>dbname = Some name, dbhost = Some ''localhost'', dbuser = None, dbpass = None,
      dbport = None\<rparr>"
proof -
  have "py_find '':'' name = - 1" "py_find ''@'' name = - 1" "py_find ''/'' name = - 1"
    "py_rfind '':'' name = - 1"
    using assms by (simp_all add: sep_free_def py_find_none py_rfind_none)
  then show ?thesis by (simp add: uriParser_def py_not_def)
qed

lemma uri_user_host_name:
  assumes "sep_free user" "sep_free host" "sep_free name" "user \<noteq> []"
  shows "uriParser (user @ ''@'' @ host @ ''/'' @ name) =
     \<lparr>dbname = Some name, dbhost = Some (host_or_default host), dbuser = Some user,
      dbpass = None, dbport = None\<rparr>"
proof -
  let ?s = "user @ ''@'' @ host @ ''/'' @ name"
  have c: "py_find '':'' ?s = - 1" and r: "py_rfind '':'' ?s = - 1"
    using assms by (simp_all add: sep_free_def py_find_none py_rfind_none)
  have a: "py_find ''@'' ?s = int (length user)"
    using assms py_find_first [of "CHR ''@''" user "host @ ''/'' @ name"]
    by (simp add: sep_free_def)
  have s: "py_find ''/'' ?s = int (length (user @ ''@'' @ host))"
    using assms py_find_first [of "CHR ''/''" "user @ ''@'' @ host" name]
    by (simp add: sep_free_def)
  have n: "py_slice_from ?s (int (length (user @ ''@'' @ host)) + 1) = name"
    using py_slice_from_suffix [of "user @ ''@'' @ host @ ''/''" name] by (simp add: add.commute)
  have u: "py_slice_to ?s (int (length user)) = user"
    by (rule py_slice_to_prefix)
  have h: "py_slice ?s (int (length user) + 1) (int (length (user @ ''@'' @ host))) = host"
    using py_slice_middle [of "user @ ''@''" host "''/'' @ name"] by (simp add: add.commute)
  show ?thesis
    unfolding uriParser_def c r a s Let_def n u h
    using assms(4) by (simp add: py_not_def host_or_default_def)
qed

lemma uri_full:
  assumes "sep_free user" "sep_free pw" "sep_free host" "sep_free port" "sep_free name"
    "user \<noteq> []"
  shows "uriParser (user @ '':'' @ pw @ ''@'' @ host @ '':'' @ port @ ''/'' @ name) =
     \<lparr>dbname = Some name, dbhost = Some (host_or_default host), dbuser = Some user,
      dbpass = Some pw, dbport = Some port\<rparr>"
proof -
  let ?s = "user @ '':'' @ pw @ ''@'' @ host @ '':'' @ port @ ''/'' @ name"
  let ?a = "user @ '':'' @ pw"
  let ?r = "?a @ ''@'' @ host"
  let ?l = "?r @ '':'' @ port"
  have c: "py_find '':'' ?s = int (length user)"
    using assms py_find_first [of "CHR '':''" user "pw @ ''@'' @ host @ '':'' @ port @ ''/'' @ name"]
    by (simp add: sep_free_def)
  have a: "py_find ''@'' ?s = int (length ?a)"
    using assms py_find_first [of "CHR ''@''" ?a "host @ '':'' @ port @ ''/'' @ name"]
    by (simp add: sep_free_def)
  have r: "py_rfind '':'' ?s = int (length ?r)"
    using assms py_rfind_last [of "CHR '':''" "port @ ''/'' @ name" ?r]
    by (simp add: sep_free_def)
  have s: "py_find ''/'' ?s = int (length ?l)"
    using assms py_find_first [of "CHR ''/''" ?l name]
    by (simp add: sep_free_def)
  have n: "py_slice_from ?s (int (length ?l) + 1) = name"
    using py_slice_from_suffix [of "?l @ ''/''" name] by (simp add: add.commute)
  have u: "py_slice_to ?s (int (length user)) = user"
    by (rule py_slice_to_prefix)
  have p: "py_slice ?s (int (length user) + 1) (int (length ?a)) = pw"
    using py_slice_middle [of "user @ '':''" pw "''@'' @ host @ '':'' @ port @ ''/'' @ name"]
    by (simp add: add.commute)
  have h: "py_slice ?s (int (length ?a) + 1) (int (length ?r)) = host"
    using py_slice_middle [of "?a @ ''@''" host "'':'' @ port @ ''/'' @ name"]
    by (simp add: add.commute add.left_commute)
  have q: "py_slice ?s (int (length ?r) + 1) (int (length ?l)) = port"
    using py_slice_middle [of "?r @ '':''" port "''/'' @ name"]
    by (simp add: add.commute add.left_commute)
  show ?thesis
    unfolding uriParser_def c r a s Let_def n u h p q
    using assms(6) by (simp add: py_not_def host_or_default_def)
qed

lemma uri_user_pass_name:
  assumes "sep_free user" "sep_free pw" "sep_free name" "user \<noteq> []"
  shows "uriParser (user @ '':'' @ pw @ ''/'' @ name) =
     \<lparr>dbname = Some name, dbhost = Some ''localhost'', dbuser = Some user,
      dbpass = Some pw, dbport = Some pw\<rparr>"
proof -
  let ?s = "user @ '':'' @ pw @ ''/'' @ name"
  let ?a = "user @ '':'' @ pw"
  have c: "py_find '':'' ?s = int (length user)"
    using assms py_find_first [of "CHR '':''" user "pw @ ''/'' @ name"]
    by (simp add: sep_free_def)
  have r: "py_rfind '':'' ?s = int (length user)"
    using assms py_rfind_last [of "CHR '':''" "pw @ ''/'' @ name" user]
    by (simp add: sep_free_def)
  have a: "py_find ''@'' ?s = - 1"
    using assms by (simp add: sep_free_def py_find_none)
  have s: "py_find ''/'' ?s = int (length ?a)"
    using assms py_find_first [of "CHR ''/''" ?a name]
    by (simp add: sep_free_def)
  have n: "py_slice_from ?s (int (length ?a) + 1) = name"
    using py_slice_from_suffix [of "?a @ ''/''" name] by (simp add: add.commute)
  have u: "py_slice_to ?s (int (length user)) = user"
    by (rule py_slice_to_prefix)
  have p: "py_slice ?s (int (length user) + 1) (int (length ?a)) = pw"
    using py_slice_middle [of "user @ '':''" pw "''/'' @ name"]
    by (simp add: add.commute)
  show ?thesis
    unfolding uriParser_def c r a s Let_def n u p
    using assms(4) by (simp add: py_not_def)
qed

text \<open>
  Claim C6. The legacy shape \<open>user:pass/name\<close> is not decomposed as expected: its only
  colon is also the last colon and lies after the absent \<open>@\<close> (index \<open>-1\<close>), so the
  password is returned as the port as well.
\<close>

theorem uriParser_legacy_port:
  "uriParser ''user:pass/name'' =
     \<lparr>dbname = Some ''name'', dbhost = Some ''localhost'', dbuser = Some ''user'',
      dbpass = Some ''pass'', dbport = Some ''pass''\<rparr>"
  by code_simp

text \<open>
  Claim C7. With the first colon after the \<open>@\<close>, as in \<open>user@host:5432/name\<close>, the user
  field is the whole prefix up to that colon, host included.
\<close>

theorem uriParser_user_after_at:
  "uriParser ''user@host:5432/name'' =
     \<lparr>dbname = Some ''name'', dbhost = Some ''host'', dbuser = Some ''user@host'',
      dbpass = Some [], dbport = Some ''5432''\<rparr>"
  by code_simp

section \<open>Properties of \<open>queryRemote\<close>\<close>

lemma poll_returns_late:
  assumes "poll api task_id n elapsed_time polling_interval sleeps = Some y"
    and "never_settles api task_id"
  shows "600 \<le> elapsed_time"
proof -
  have "never_settles api task_id \<longrightarrow> 600 \<le> elapsed_time"
  proof (rule poll.raw_induct
      [where P = "\<lambda>a t n e i s y. never_settles a t \<longrightarrow> 600 \<le> e", OF _ assms(1)],
      goal_cases)
    case (1 f a t m e i s z)
    show ?case
    proof (intro impI, rule ccontr)
      assume ns: "never_settles a t" and "\<not> 600 \<le> e"
      then have lt: "e < 600" by simp
      from ns obtain r j st where
        g: "get_status a t m = Returns r" and rj: "response_json r = Inr j"
        and st: "json_get j ''status'' = Inr st" and np: "st \<noteq> JStr ''PENDING''"
        and nu: "st \<noteq> JStr ''SUCCESS''"
        unfolding never_settles_def by blast
      from "1"(2) lt g rj st np nu have "f a t (m + 1) e i s = Some z"
        by simp
      from "1"(1) [OF this] ns lt show False by simp
    qed
  qed
  with assms(2) show ?thesis by simp
qed

lemma poll_never_settles:
  assumes "never_settles api task_id" and "elapsed_time < 600"
  shows "poll api task_id n elapsed_time polling_interval sleeps = None"
proof (cases "poll api task_id n elapsed_time polling_interval sleeps")
  case None
  then show ?thesis .
next
  case (Some y)
  from poll_returns_late [OF Some assms(1)] assms(2) show ?thesis by simp
qed

text \<open>
  With no status other than \<open>PENDING\<close> and \<open>SUCCESS\<close> the loop ends without raising.
\<close>

lemma poll_terminates:
  assumes "pending_or_success api task_id" and "0 < polling_interval"
  shows "\<exists>res. poll api task_id n elapsed_time polling_interval sleeps = Some (Inr res)"
  using assms(2)
proof (induction "600 - elapsed_time" arbitrary: elapsed_time n polling_interval sleeps
    rule: less_induct)
  case less
  show ?case
  proof (cases "elapsed_time < 600")
    case False
    then show ?thesis by (subst poll.simps) simp
  next
    case True
    from assms(1) obtain r j s where
      g: "get_status api task_id n = Returns r" and rj: "response_json r = Inr j"
      and st: "json_get j ''status'' = Inr s"
      and ps: "s = JStr ''PENDING'' \<or> s = JStr ''SUCCESS''"
      unfolding pending_or_success_def by blast
    show ?thesis
    proof (cases "s = JStr ''PENDING''")
      case False
      with ps True g rj st show ?thesis by (subst poll.simps) simp
    next
      case p: True
      define interval where "interval = (if 60 < elapsed_time then 10 else polling_interval)"
      have pos: "0 < interval" using less.prems by (simp add: interval_def)
      then have "600 - (elapsed_time + interval) < 600 - elapsed_time" using True by simp
      from less.hyps [OF this pos, of "n + 1" "sleeps @ [interval]"]
      obtain res where
        "poll api task_id (n + 1) (elapsed_time + interval) interval (sleeps @ [interval])
           = Some (Inr res)" by blast
      with True g rj st p show ?thesis
        by (subst poll.simps) (simp add: interval_def Let_def)
    qed
  qed
qed

lemma never_settles_failure: "never_settles (constant_api ''FAILURE'') task_id"
  by (simp add: never_settles_def constant_api_def status_response_def response_json_def
      json_get_def)

text \<open>
  Claim C3. A service that reports \<open>FAILURE\<close> at every poll keeps the loop running
  for ever: that branch neither sleeps nor advances the elapsed time, so \<open>queryRemote\<close>
  never returns.
\<close>

theorem queryRemote_failure_never_returns:
  "queryRemote (constant_api ''FAILURE'') ''{}'' = None"
proof -
  have s: "submit (constant_api ''FAILURE'') ''{}'' = Inr (Polling (JStr ''abc''))"
    by (simp add: submit_def constant_api_def raises_for_status_def response_json_def
        json_get_def)
  have "poll (constant_api ''FAILURE'') (JStr ''abc'') 0 0 2 [] = None"
    by (rule poll_never_settles [OF never_settles_failure]) simp
  then show ?thesis by (simp add: queryRemote_def s)
qed

text \<open>
  What the loop does while the task is pending: thirty-one sleeps of 2 seconds, then
  fifty-four of 10 seconds, and the result \<open>None\<close>.
\<close>

lemma queryRemote_pending_times_out:
  "queryRemote (constant_api ''PENDING'') ''{}'' =
     Some (Inr (None, replicate 31 2 @ replicate 54 10))"
  by code_simp

lemma queryRemote_success:
  "queryRemote success_api ''{}'' =
     Some (Inr (Some (JObj [(''type'', JStr ''FeatureCollection''), (''features'', JArr [])]),
                [2, 2]))"
  by code_simp

text \<open>
  Claim C4. When the service cannot be reached the request raises an exception that is
  not an \<open>HTTPError\<close>; the handler does not catch it and it reaches the caller.
\<close>

theorem queryRemote_network_error_raises:
  "queryRemote unreachable_api ''{}'' = Some (Inl ConnectionError)"
  by code_simp

text \<open>An error response whose body is not JSON raises from inside the handler.\<close>

lemma queryRemote_unparseable_error_raises:
  "queryRemote (answering_api (Response 500 None)) ''{}'' = Some (Inl JSONDecodeError)"
  by code_simp

text \<open>
  An error response (400 to 599) whose body is a JSON object is returned with the
  status code attached.
\<close>

lemma queryRemote_error_document:
  assumes "post api query = Returns (Response code (Some (JObj kvs)))"
    and "400 \<le> code" and "code < 600"
  shows "queryRemote api query =
     Some (Inr (Some (JObj (dict_set kvs ''status_code'' (JInt code))), []))"
  using assms
  by (simp add: queryRemote_def submit_def raises_for_status_def response_json_def)

section \<open>Properties of \<open>createJson\<close>\<close>

lemma dict_get_present: "k \<in> fst ` set d \<Longrightarrow> \<exists>v. dict_get d k = Inr v"
  by (auto simp: dict_get_def map_of_eq_None_iff split: option.splits)

lemma dict_set_keys: "k \<in> fst ` set d \<Longrightarrow> map fst (dict_set d k v) = map fst d"
  by (induction d) force+

lemma class_keys_get:
  "class_keys d \<Longrightarrow> cls \<in> {''point'', ''polygon'', ''line''} \<Longrightarrow> \<exists>v. dict_get d cls = Inr v"
proof -
  assume a: "class_keys d" "cls \<in> {''point'', ''polygon'', ''line''}"
  have "set (map fst d) = {''point'', ''polygon'', ''line''}"
    using a(1) by (simp add: class_keys_def)
  then have "cls \<in> fst ` set d" using a(2) by auto
  then show ?thesis by (rule dict_get_present)
qed

lemma class_keys_set:
  "class_keys d \<Longrightarrow> cls \<in> {''point'', ''polygon'', ''line''} \<Longrightarrow> class_keys (dict_set d cls v)"
proof -
  assume a: "class_keys d" "cls \<in> {''point'', ''polygon'', ''line''}"
  have "set (map fst d) = {''point'', ''polygon'', ''line''}"
    using a(1) by (simp add: class_keys_def)
  then have "cls \<in> fst ` set d" using a(2) by auto
  then show ?thesis using a(1) by (simp add: class_keys_def dict_set_keys)
qed

lemma tables_map_class:
  "table \<in> set geometry_classes \<Longrightarrow>
   \<exists>cls. dict_get tables_map table = Inr cls \<and> cls \<in> {''point'', ''polygon'', ''line''}"
  by (auto simp: geometry_classes_def tables_map_def dict_get_def)

lemma append_key_ok:
  assumes "class_keys d" "cls \<in> {''point'', ''polygon'', ''line''}"
  shows "\<exists>d'. append_key d cls key = Inr d' \<and> class_keys d'"
proof -
  from class_keys_get [OF assms] obtain ks where "dict_get d cls = Inr ks" by blast
  then show ?thesis using class_keys_set [OF assms] by (simp add: append_key_def)
qed

lemma set_both_ok:
  assumes "class_keys t" "cls \<in> {''point'', ''polygon'', ''line''}"
  shows "\<exists>t'. set_both t cls key v = Inr t' \<and> class_keys t'"
proof -
  from class_keys_get [OF assms] obtain f where "dict_get t cls = Inr f" by blast
  then show ?thesis using class_keys_set [OF assms] by (simp add: set_both_def)
qed

lemma json_item_ok:
  assumes "wf_where_item item" "table \<in> set geometry_classes" "keys_ok st"
  shows "\<exists>st'. json_item table item st = Inr st' \<and> keys_ok st'"
proof -
  from assms(1) obtain key v rest where item: "item = (key, v) # rest"
    by (cases item) (auto simp: wf_where_item_def)
  from assms(1) obtain opv where opv: "dict_get item ''op'' = Inr opv"
    by (auto simp: wf_where_item_def dict_get_def)
  from tables_map_class [OF assms(2)] obtain cls where
    cls: "dict_get tables_map table = Inr cls" "cls \<in> {''point'', ''polygon'', ''line''}"
    by blast
  have k: "class_keys (or_keys st)" "class_keys (and_keys st)" "class_keys (tags st)"
    using assms(3) by (simp_all add: keys_ok_def)
  obtain st1 where
    s1: "(if opv = PStr ''or''
          then ebind (dict_get tables_map table) (\<lambda>cls.
               ebind (append_key (or_keys st) cls key) (\<lambda>d. Inr (st\<lparr>or_keys := d\<rparr>)))
          else Inr st) = Inr st1" and k1: "keys_ok st1"
  proof (cases "opv = PStr ''or''")
    case True
    from append_key_ok [OF k(1) cls(2), of key] obtain d where
      "append_key (or_keys st) cls key = Inr d" "class_keys d" by blast
    with True cls(1) assms(3) that [of "st\<lparr>or_keys := d\<rparr>"] show ?thesis
      by (simp add: keys_ok_def)
  next
    case False
    with assms(3) that [of st] show ?thesis by simp
  qed
  have k1': "class_keys (and_keys st1)" "class_keys (tags st1)"
    using k1 by (simp_all add: keys_ok_def)
  obtain st2 where
    s2: "(if opv = PStr ''and''
          then ebind (dict_get tables_map table) (\<lambda>cls.
               ebind (append_key (and_keys st1) cls key) (\<lambda>d. Inr (st1\<lparr>and_keys := d\<rparr>)))
          else Inr st1) = Inr st2" and k2: "keys_ok st2"
  proof (cases "opv = PStr ''and''")
    case True
    from append_key_ok [OF k1'(1) cls(2), of key] obtain d where
      "append_key (and_keys st1) cls key = Inr d" "class_keys d" by blast
    with True cls(1) k1 that [of "st1\<lparr>and_keys := d\<rparr>"] show ?thesis
      by (simp add: keys_ok_def)
  next
    case False
    with k1 that [of st1] show ?thesis by simp
  qed
  have "class_keys (tags st2)" using k2 by (simp add: keys_ok_def)
  from set_both_ok [OF this cls(2), of key "if contains_not_null v then PList [] else v"]
  obtain t where
    t: "set_both (tags st2) cls key (if contains_not_null v then PList [] else v) = Inr t"
    "class_keys t" by blast
  have "json_item table item st = Inr (st2\<lparr>tags := t\<rparr>)"
    unfolding json_item_def item list.case prod.case
    using opv s1 s2 cls(1) t(1) by (simp add: item)
  moreover have "keys_ok (st2\<lparr>tags := t\<rparr>)" using k2 t(2) by (simp add: keys_ok_def)
  ultimately show ?thesis by blast
qed

lemma json_items_ok:
  "list_all wf_where_item items \<Longrightarrow> table \<in> set geometry_classes \<Longrightarrow> keys_ok st \<Longrightarrow>
   \<exists>st'. json_items table items st = Inr st' \<and> keys_ok st'"
proof (induction items arbitrary: st)
  case Nil
  then show ?case by simp
next
  case (Cons item items)
  from Cons.prems json_item_ok [of item table st] obtain st1 where
    "json_item table item st = Inr st1" "keys_ok st1" by auto
  with Cons.IH [of st1] Cons.prems show ?case by simp
qed

lemma json_tables_ok:
  "list_all wf_where_table wh \<Longrightarrow> set ts \<subseteq> fst ` set wh \<Longrightarrow> keys_ok st \<Longrightarrow>
   \<exists>st'. json_tables wh ts st = Inr st' \<and> keys_ok st'"
proof (induction ts arbitrary: st)
  case Nil
  then show ?case by simp
next
  case (Cons table ts)
  from Cons.prems(2) obtain items where m: "map_of wh table = Some items"
    by (cases "map_of wh table") (auto simp: map_of_eq_None_iff)
  then have "(table, items) \<in> set wh" by (rule map_of_SomeD)
  with Cons.prems(1) have wt: "wf_where_table (table, items)" by (auto simp: list_all_iff)
  have "\<exists>st1. json_items table items st = Inr st1 \<and> keys_ok st1"
  proof (cases "items = []")
    case True
    with Cons.prems(3) show ?thesis by simp
  next
    case False
    with wt have "table \<in> set geometry_classes" "list_all wf_where_item items"
      by (simp_all add: wf_where_table_def)
    from json_items_ok [OF this(2) this(1) Cons.prems(3)] show ?thesis .
  qed
  then obtain st1 where s: "json_items table items st = Inr st1" "keys_ok st1" by blast
  from Cons.IH [OF Cons.prems(1) _ s(2)] Cons.prems(2) obtain st' where
    "json_tables wh ts st1 = Inr st'" "keys_ok st'" by auto
  with s(1) m show ?case by (simp add: dict_get_Some)
qed

lemma select_attributes_ok:
  "list_all (\<lambda>entry. length entry = 1) entries \<Longrightarrow>
   \<exists>as. select_attributes entries attributes = Inr as"
proof (induction entries arbitrary: attributes)
  case Nil
  then show ?case by simp
next
  case (Cons entry entries)
  from Cons.prems obtain k v where "entry = [(k, v)]"
    by (cases entry) (auto simp: length_Suc_conv)
  with Cons show ?case by simp
qed

lemma select_tables_ok:
  "list_all wf_select_table sel \<Longrightarrow> \<exists>as. select_tables sel attributes = Inr as"
proof (induction sel arbitrary: attributes)
  case Nil
  then show ?case by simp
next
  case (Cons te sel)
  obtain table entries where te: "te = (table, entries)" by (cases te)
  from Cons.prems te select_attributes_ok [of entries attributes] obtain as1 where
    "select_attributes entries attributes = Inr as1" by (auto simp: wf_select_table_def)
  with Cons te show ?case by simp
qed

lemma has_entries_ok:
  "map_of (cfg_select cfg) t \<noteq> None \<Longrightarrow> map_of (cfg_where cfg) t \<noteq> None \<Longrightarrow>
   \<exists>b. has_entries cfg t = Inr b"
  by (auto simp: has_entries_def dict_get_def)

lemma geometry_types_ok:
  assumes "wf_config cfg"
  shows "\<exists>gt. geometry_types cfg = Inr gt"
proof -
  from assms have
    "\<exists>b. has_entries cfg ''nodes'' = Inr b" "\<exists>b. has_entries cfg ''ways_line'' = Inr b"
    "\<exists>b. has_entries cfg ''ways_poly'' = Inr b"
    by (simp_all add: wf_config_def geometry_classes_def has_entries_ok)
  then show ?thesis by (auto simp: geometry_types_def)
qed

lemma createJson_feature_ok:
  assumes "wf_config cfg"
  shows "\<exists>f. createJson_feature cfg boundary = Inr f"
proof -
  from geometry_types_ok [OF assms] obtain gt where g: "geometry_types cfg = Inr gt" by blast
  have "keys_ok init_json_state"
    by (simp add: keys_ok_def class_keys_def init_json_state_def)
  from json_tables_ok [OF _ _ this, of "cfg_where cfg" "map fst (cfg_where cfg)"] assms
  obtain st where
    s: "json_tables (cfg_where cfg) (map fst (cfg_where cfg)) init_json_state = Inr st"
    by (auto simp: wf_config_def)
  from select_tables_ok [of "cfg_select cfg" "[]"] assms obtain as where
    a: "select_tables (cfg_select cfg) [] = Inr as" by (auto simp: wf_config_def)
  show ?thesis by (simp add: createJson_feature_def g s a)
qed

text \<open>
  Claim C10. A configuration with the key \<open>centroid\<close> never gets a document out of
  \<open>createJson\<close>; when the configuration has the shape of the data model, so that the
  loops before it succeed, the failure is the \<open>NameError\<close> for \<open>true\<close>. Without that key
  such a configuration gets the serialised document.
\<close>

theorem createJson_centroid:
  "(''centroid'' \<in> set (config_keys cfg) \<longrightarrow> (\<exists>e. createJson cfg boundary allgeom = Inl e))
   \<and> (wf_config cfg \<longrightarrow>
        (\<exists>f. createJson_feature cfg boundary = Inr f
           \<and> createJson cfg boundary allgeom =
               (if ''centroid'' \<in> set (config_keys cfg) then Inl (NameError ''true'')
                else Inr (json_dumps (json_of_feature f)))))"
proof (intro conjI impI)
  assume c: "''centroid'' \<in> set (config_keys cfg)"
  show "\<exists>e. createJson cfg boundary allgeom = Inl e"
    using c by (cases "createJson_feature cfg boundary") (simp_all add: createJson_def)
next
  assume "wf_config cfg"
  from createJson_feature_ok [OF this] obtain f where
    "createJson_feature cfg boundary = Inr f" by blast
  then show "\<exists>f. createJson_feature cfg boundary = Inr f
       \<and> createJson cfg boundary allgeom =
           (if ''centroid'' \<in> set (config_keys cfg) then Inl (NameError ''true'')
            else Inr (json_dumps (json_of_feature f)))"
    by (simp add: createJson_def)
qed

theorem createJson_centroid_witness:
  "wf_config centroid_config \<and> ''centroid'' \<in> set (config_keys centroid_config)
   \<and> createJson centroid_config example_boundary True = Inl (NameError ''true'')
   \<and> wf_config poly_config \<and> ''centroid'' \<notin> set (config_keys poly_config)
   \<and> (\<exists>f. createJson_feature poly_config example_boundary = Inr f
          \<and> createJson poly_config example_boundary True = Inr (json_dumps (json_of_feature f)))"
proof -
  have w1: "wf_config centroid_config" by code_simp
  have c1: "''centroid'' \<in> set (config_keys centroid_config)" by code_simp
  have w2: "wf_config poly_config" by code_simp
  have c2: "''centroid'' \<notin> set (config_keys poly_config)" by code_simp
  from createJson_centroid [of centroid_config example_boundary True] w1 c1
  have r1: "createJson centroid_config example_boundary True = Inl (NameError ''true'')"
    by auto
  from createJson_centroid [of poly_config example_boundary True] w2 c2
  have r2: "\<exists>f. createJson_feature poly_config example_boundary = Inr f
          \<and> createJson poly_config example_boundary True = Inr (json_dumps (json_of_feature f))"
    by auto
  from w1 c1 r1 w2 c2 r2 show ?thesis by blast
qed

text \<open>
  The value list of a clause goes under both groups of its geometry class, whatever its
  operator; the two lists of keys that the loop fills by operator are not read again.
\<close>

lemma json_item_tags:
  assumes "json_item table ((key, v) # rest) st = Inr st'"
    and "dict_get tables_map table = Inr cls"
    and "dict_get (tags st) cls = Inr f"
  shows "tags st' =
     dict_set (tags st) cls
       \<lparr>join_or = dict_set (join_or f) key (if contains_not_null v then PList [] else v),
        join_and = dict_set (join_and f) key (if contains_not_null v then PList [] else v)\<rparr>"
  using assms
  by (auto simp: json_item_def set_both_def ebind_def split: sum.splits if_splits)

text \<open>
  Claim C5. With one clause under \<open>or\<close> and one under \<open>and\<close>, each value list is
  recorded under \<open>join_or\<close> and under \<open>join_and\<close> alike.
\<close>

theorem createJson_both_groups:
  "createJson or_and_config example_boundary True =
     Inr (json_dumps (json_of_feature
       \<lparr>doc_geometry = example_boundary,
        doc_geometryType = [''point''],
        doc_tags =
          [(''point'',
            \<lparr>join_or = [(''building'', PList [PStr ''yes'']), (''amenity'', PList [PStr ''school''])],
             join_and = [(''building'', PList [PStr ''yes'']), (''amenity'', PList [PStr ''school''])]\<rparr>),
           (''polygon'', \<lparr>join_or = [], join_and = []\<rparr>),
           (''line'', \<lparr>join_or = [], join_and = []\<rparr>)]\<rparr>))"
  by code_simp

text \<open>The sentinel among the values leaves an empty list under both groups.\<close>

lemma createJson_not_null:
  "map_sum id doc_tags (createJson_feature poly_config example_boundary) =
     Inr [(''point'', \<lparr>join_or = [], join_and = []\<rparr>),
          (''polygon'',
            \<lparr>join_or = [(''building'', PList [PStr ''yes'']), (''amenity'', PList []),
                        (''name'', PList []),
                        (''highway'', PList [PStr ''primary'', PStr ''secondary''])],
             join_and = [(''building'', PList [PStr ''yes'']), (''amenity'', PList []),
                         (''name'', PList []),
                         (''highway'', PList [PStr ''primary'', PStr ''secondary''])]\<rparr>),
          (''line'', \<lparr>join_or = [], join_and = []\<rparr>)]"
  by code_simp

section \<open>Properties of \<open>queryLocal\<close>\<close>

text \<open>
  Claim C9. When the configuration has no filter under \<open>ways_poly\<close> and none under
  \<open>nodes\<close>, and the query has been executed and its rows fetched, \<open>queryLocal\<close> returns
  those rows as they are.
\<close>

theorem queryLocal_raw_rows:
  assumes "map_of (cfg_where cfg) ''ways_poly'' = Some []"
    and "map_of (cfg_where cfg) ''nodes'' = Some []"
    and "prepare_query be db query boundary = Inr (db1, q)"
    and "execute be db1 q = Inr db2"
    and "fetchall be db2 = Inr rows"
  shows "queryLocal be cfg db query allgeom boundary = Inr (RawRows rows, db2)"
  using assms by (simp add: queryLocal_def no_filters_def dict_get_Some)

theorem queryLocal_raw_rows_witness:
  "queryLocal (fixed_backend [building_row, named_row]) unfiltered_config []
     ''SELECT * FROM ways_poly'' True None
   = Inr (RawRows [building_row, named_row], [''SELECT * FROM ways_poly''])"
proof -
  have "map_of (cfg_where unfiltered_config) ''ways_poly'' = Some []"
    "map_of (cfg_where unfiltered_config) ''nodes'' = Some []"
    by (simp_all add: unfiltered_config_def)
  moreover have "prepare_query (fixed_backend [building_row, named_row]) []
      ''SELECT * FROM ways_poly'' None = Inr ([], ''SELECT * FROM ways_poly'')"
    by (simp add: prepare_query_def)
  moreover have "execute (fixed_backend [building_row, named_row]) [] ''SELECT * FROM ways_poly''
      = Inr [''SELECT * FROM ways_poly'']"
    by (simp add: fixed_backend_def)
  moreover have "fetchall (fixed_backend [building_row, named_row]) [''SELECT * FROM ways_poly'']
      = Inr [building_row, named_row]"
    by (simp add: fixed_backend_def)
  ultimately show ?thesis by (rule queryLocal_raw_rows)
qed

subsection \<open>The row decoder\<close>

lemma py_slice_to_drop2: "py_slice_to (x @ [a, b]) (- 2) = x"
  by (simp add: py_slice_to_def slice_bound_def)

lemma select_text_columns:
  "select_text allgeom (map (\<lambda>a. [a]) attrs) =
     ''SELECT '' @ geometry_column allgeom @ '', osm_id, version''
       @ concat (map attribute_column attrs)"
proof -
  have c: "concat (map (\<lambda>entry. concat (map select_item entry)) (map (\<lambda>a. [a]) attrs))
        = concat (map (\<lambda>a. ''tags->>'' @ [sq] @ fst a @ [sq] @ '', '') attrs)"
    by (induction attrs) (simp_all add: select_item_def)
  have s: "'', '' @ concat (map (\<lambda>a. ''tags->>'' @ [sq] @ fst a @ [sq] @ '', '') attrs)
        = concat (map attribute_column attrs) @ '', ''"
    by (induction attrs) (simp_all add: attribute_column_def)
  have "select_text allgeom (map (\<lambda>a. [a]) attrs) =
      py_slice_to (''SELECT '' @ geometry_column allgeom @ '', osm_id, version''
          @ ('', '' @ concat (map (\<lambda>a. ''tags->>'' @ [sq] @ fst a @ [sq] @ '', '') attrs))) (- 2)"
    unfolding select_text_def c by (simp add: geometry_column_def)
  also have "\<dots> = py_slice_to ((''SELECT '' @ geometry_column allgeom @ '', osm_id, version''
          @ concat (map attribute_column attrs)) @ '', '') (- 2)"
    by (simp only: s append_assoc)
  also have "\<dots> = ''SELECT '' @ geometry_column allgeom @ '', osm_id, version''
          @ concat (map attribute_column attrs)"
    by (rule py_slice_to_drop2)
  finally show ?thesis .
qed

lemma dict_set_new: "k \<notin> fst ` set d \<Longrightarrow> dict_set d k v = d @ [(k, v)]"
  by (induction d) auto

lemma decode_entries_columns:
  assumes "length cols = length attrs" "distinct (map fst attrs)"
    "fst ` set tgs \<inter> fst ` set attrs = {}"
  shows "decode_entries (map (\<lambda>a. [a]) attrs) (seen @ cols) (length seen) tgs =
     Inr (length (seen @ cols),
          tgs @ filter (\<lambda>kc. snd kc \<noteq> CNull) (zip (map fst attrs) cols))"
  using assms
proof (induction attrs arbitrary: cols seen tgs)
  case Nil
  then show ?case by simp
next
  case (Cons a attrs)
  obtain k v where a: "a = (k, v)" by (cases a)
  from Cons.prems(1) obtain c cs where cols: "cols = c # cs" "length cs = length attrs"
    by (cases cols) auto
  have g: "list_get (seen @ c # cs) (length seen) = Inr c"
    by (simp add: list_get_def)
  have k: "k \<notin> fst ` set tgs" using Cons.prems(3) a by auto
  let ?tgs = "if c \<noteq> CNull then dict_set tgs k c else tgs"
  have t: "?tgs = tgs @ (if c \<noteq> CNull then [(k, c)] else [])"
    using k by (simp add: dict_set_new)
  have d: "distinct (map fst attrs)" using Cons.prems(2) by simp
  have kn: "k \<notin> fst ` set attrs" using Cons.prems(2) a by simp
  have "fst ` set ?tgs \<inter> fst ` set attrs = {}"
  proof -
    have "fst ` set tgs \<inter> fst ` set attrs = {}" using Cons.prems(3) by auto
    moreover have "fst ` set ?tgs \<subseteq> insert k (fst ` set tgs)" by (auto simp: t)
    ultimately show ?thesis using kn by blast
  qed
  from Cons.IH [OF cols(2) d this, of "seen @ [c]"]
  have "decode_entries (map (\<lambda>a. [a]) attrs) (seen @ c # cs) (length seen + 1) ?tgs =
     Inr (length (seen @ c # cs),
          ?tgs @ filter (\<lambda>kc. snd kc \<noteq> CNull) (zip (map fst attrs) cs))"
    by simp
  then show ?case
    using g by (simp add: a cols t)
qed

lemma decode_entries_done: "decode_entries es item (length item) tgs = Inr (length item, tgs)"
  by (cases es) simp_all

lemma decode_tables_done: "decode_tables ts item (length item) tgs = Inr (length item, tgs)"
  by (induction ts) (auto simp: decode_entries_done)

lemma decode_tables_empty:
  "list_all (\<lambda>te. snd te = []) ts \<Longrightarrow>
   decode_tables (ts @ rest) item i tgs = decode_tables rest item i tgs"
  by (induction ts) auto

text \<open>
  Claim C8. With attributes selected for two geometry classes the statement that
  \<open>createSQL\<close> compiles for \<open>ways_poly\<close> projects \<open>building\<close> alone; \<open>queryLocal\<close>,
  decoding the row of that statement, walks the select lists of all classes from the
  first and files the column under \<open>amenity\<close>. The key \<open>building\<close> is not among the
  properties.
\<close>

theorem queryLocal_wrong_key:
  "createSQL two_class_config True =
     Inr [''SELECT ST_AsText(geom), osm_id, version, tags->>'amenity' FROM nodes WHERE tags->>'amenity' IS NOT NULL'',
          ''SELECT ST_AsText(geom), osm_id, version, tags->>'building' FROM ways_poly WHERE tags->>'building' ='yes'' @ [sq]]
   \<and> queryLocal (fixed_backend [building_row]) two_class_config []
         (''SELECT ST_AsText(geom), osm_id, version, tags->>'building' FROM ways_poly WHERE tags->>'building' ='yes'' @ [sq])
         True None
       = Inr (FeatureCollection
                [\<lparr>geometry = ''POLYGON((0 0,0 1,1 1,0 0))'',
                  properties = [(''id'', CInt 101), (''version'', CInt 2),
                                (''amenity'', CText ''yes'')]\<rparr>],
              [''SELECT ST_AsText(geom), osm_id, version, tags->>'building' FROM ways_poly WHERE tags->>'building' ='yes'' @ [sq]])"
  by code_simp

text \<open>
  Where the decoder and the compiler do agree: the select list of the queried table
  holds entries of one pair each, with distinct keys other than \<open>id\<close> and \<open>version\<close>, and
  no geometry class before it in the select dictionary selects anything. Then the
  projection lists the keys in the order of the configuration, and the decoder files the
  columns that are not null under those keys, in that order.
\<close>

lemma decode_row_single_class:
  assumes "cfg_select cfg = pre @ (t, map (\<lambda>a. [a]) attrs) # rest"
    and "list_all (\<lambda>te. snd te = []) pre"
    and "t \<notin> fst ` set pre"
    and "distinct (map fst attrs)"
    and "''id'' \<notin> fst ` set attrs"
    and "''version'' \<notin> fst ` set attrs"
    and "length cols = length attrs"
    and "cfg_tables cfg \<noteq> []"
    and "wkt_loads be g = Inr geom"
  shows "dict_get (cfg_select cfg) t = Inr (map (\<lambda>a. [a]) attrs)
    \<and> select_text allgeom (map (\<lambda>a. [a]) attrs) =
        ''SELECT '' @ geometry_column allgeom @ '', osm_id, version''
          @ concat (map attribute_column attrs)
    \<and> decode_row be cfg query (g # i # v # cols) =
        Inr \<lparr>geometry = geom,
             properties = (''id'', i) # (''version'', v)
                # filter (\<lambda>kc. snd kc \<noteq> CNull) (zip (map fst attrs) cols)\<rparr>"
proof (intro conjI)
  have "map_of (cfg_select cfg) t = Some (map (\<lambda>a. [a]) attrs)"
    using assms(3) by (simp add: assms(1) map_of_append map_of_eq_None_iff [THEN iffD2]
        map_add_def)
  then show "dict_get (cfg_select cfg) t = Inr (map (\<lambda>a. [a]) attrs)"
    by (rule dict_get_Some)
next
  show "select_text allgeom (map (\<lambda>a. [a]) attrs) =
        ''SELECT '' @ geometry_column allgeom @ '', osm_id, version''
          @ concat (map attribute_column attrs)"
    by (rule select_text_columns)
next
  let ?item = "g # i # v # cols"
  let ?tgs = "[(''id'', i), (''version'', v)]"
  have dis: "fst ` set ?tgs \<inter> fst ` set attrs = {}"
    using assms(5,6) by auto
  from decode_entries_columns [OF assms(7,4) dis, of "[g, i, v]"]
  have e: "decode_entries (map (\<lambda>a. [a]) attrs) ?item 3 ?tgs =
      Inr (length ?item, ?tgs @ filter (\<lambda>kc. snd kc \<noteq> CNull) (zip (map fst attrs) cols))"
    by (simp add: numeral_3_eq_3)
  have "decode_tables (cfg_select cfg) ?item 3 ?tgs =
      decode_tables ((t, map (\<lambda>a. [a]) attrs) # rest) ?item 3 ?tgs"
    unfolding assms(1) by (rule decode_tables_empty [OF assms(2)])
  also have "\<dots> = decode_tables rest ?item (length ?item)
      (?tgs @ filter (\<lambda>kc. snd kc \<noteq> CNull) (zip (map fst attrs) cols))"
    by (simp only: decode_tables.simps e ebind_Inr fst_conv snd_conv)
  also have "\<dots> = Inr (length ?item,
      ?tgs @ filter (\<lambda>kc. snd kc \<noteq> CNull) (zip (map fst attrs) cols))"
    by (rule decode_tables_done)
  finally have d: "decode_tables (cfg_select cfg) ?item 3 ?tgs =
      Inr (length ?item, ?tgs @ filter (\<lambda>kc. snd kc \<noteq> CNull) (zip (map fst attrs) cols))" .
  have t: "dict_set (dict_set [] ''id'' i) ''version'' v = ?tgs" by simp
  have l: "list_get ?item 0 = Inr g" "list_get ?item 1 = Inr i" "list_get ?item 2 = Inr v"
    by (simp_all add: list_get_def)
  show "decode_row be cfg query ?item =
        Inr \<lparr>geometry = geom,
             properties = (''id'', i) # (''version'', v)
                # filter (\<lambda>kc. snd kc \<noteq> CNull) (zip (map fst attrs) cols)\<rparr>"
    unfolding decode_row_def l ebind_Inr assms(9) Let_def t d
    using assms(8) by simp
qed

lemma decode_row_single_class_example:
  "dict_get (cfg_select poly_config) ''ways_poly'' = Inr poly_select
   \<and> select_text True poly_select =
       ''SELECT ST_AsText(geom), osm_id, version, tags->>'building', tags->>'name'' @ [sq]
   \<and> decode_row (fixed_backend [named_row]) poly_config ''SELECT 1'' named_row =
       Inr \<lparr>geometry = ''POLYGON((0 0,0 1,1 1,0 0))'',
            properties = [(''id'', CInt 101), (''version'', CInt 2), (''building'', CText ''yes'')]\<rparr>"
proof -
  let ?attrs = "[(''building'', PList []), (''name'', PList [])]"
  have p: "poly_select = map (\<lambda>a. [a]) ?attrs" by (simp add: poly_select_def)
  have 1: "cfg_select poly_config =
      [(''nodes'', [])] @ (''ways_poly'', map (\<lambda>a. [a]) ?attrs) # [(''ways_line'', [])]"
    by (simp add: poly_config_def poly_select_def)
  have 2: "list_all (\<lambda>te. snd te = []) [(''nodes'', [] :: pydict list)]" by simp
  have 3: "''ways_poly'' \<notin> fst ` set [(''nodes'', [] :: pydict list)]" by simp
  have 4: "distinct (map fst ?attrs)" by simp
  have 5: "''id'' \<notin> fst ` set ?attrs" by simp
  have 6: "''version'' \<notin> fst ` set ?attrs" by simp
  have 7: "length [CText ''yes'', CNull] = length ?attrs" by simp
  have 8: "cfg_tables poly_config \<noteq> []" by (simp add: poly_config_def)
  have 9: "wkt_loads (fixed_backend [named_row]) (CText ''POLYGON((0 0,0 1,1 1,0 0))'')
      = Inr ''POLYGON((0 0,0 1,1 1,0 0))''"
    by (simp add: fixed_backend_def)
  from decode_row_single_class [OF 1 2 3 4 5 6 7 8 9, of True "''SELECT 1''" "CInt 101" "CInt 2"]
  show ?thesis
    by (simp add: p named_row_def geometry_column_def attribute_column_def sq_def)
qed

end
